theory Spec2Isabelle
  imports Complex_Main "HOL-Library.Sublist" "HOL-Library.Multiset"
begin

section \<open>Python strings\<close>

text \<open>
  Python \<open>str\<close> values are modelled as \<^typ>\<open>string\<close>, restricted to the ASCII range;
  Python floats are modelled as exact \<^typ>\<open>real\<close> numbers (the constants of the source
  are decimal literals, so comparisons and bounds are stated on their exact values).
  A float result of the code can differ from the exact one in the last place: \<open>0.7 + 0.1\<close>
  is \<open>0.7999999999999999\<close>, and the float mean of three scores of 0.7 is below 0.7. The
  theorems are about the exact values.
\<close>

definition str_in :: "string \<Rightarrow> string \<Rightarrow> bool" where
  \<comment> \<open>\<open>sub in s\<close> on two strings: \<open>sub\<close> occurs as a contiguous substring of \<open>s\<close>.\<close>
  "str_in sub s = sublist sub s"

definition upper_char :: "char \<Rightarrow> char" where
  "upper_char c =
     (case map_of (zip ''abcdefghijklmnopqrstuvwxyz'' ''ABCDEFGHIJKLMNOPQRSTUVWXYZ'') c of
        Some u \<Rightarrow> u
      | None \<Rightarrow> c)"

definition lower_char :: "char \<Rightarrow> char" where
  "lower_char c =
     (case map_of (zip ''ABCDEFGHIJKLMNOPQRSTUVWXYZ'' ''abcdefghijklmnopqrstuvwxyz'') c of
        Some l \<Rightarrow> l
      | None \<Rightarrow> c)"

definition str_upper :: "string \<Rightarrow> string" where
  "str_upper s = map upper_char s"

definition str_lower :: "string \<Rightarrow> string" where
  "str_lower s = map lower_char s"

definition is_space :: "char \<Rightarrow> bool" where
  \<comment> \<open>\<open>str.isspace\<close> on ASCII: blank, TAB, LF, VT, FF, CR and the separators 0x1C..0x1F.\<close>
  "is_space c \<longleftrightarrow>
     c \<in> set [CHR '' '', CHR 0x09, CHR 0x0A, CHR 0x0B, CHR 0x0C, CHR 0x0D,
                CHR 0x1C, CHR 0x1D, CHR 0x1E, CHR 0x1F]"

fun split_from :: "string \<Rightarrow> string \<Rightarrow> string list" where
  \<comment> \<open>the scanning loop of \<open>s.split()\<close>; the first argument is the token being read\<close>
  "split_from cur [] = (if cur = [] then [] else [cur])"
| "split_from cur (c # cs) =
     (if is_space c then (if cur = [] then split_from [] cs else cur # split_from [] cs)
      else split_from (cur @ [c]) cs)"

definition str_split :: "string \<Rightarrow> string list" where
  \<comment> \<open>\<open>s.split()\<close>: the maximal runs of non-whitespace characters\<close>
  "str_split s = split_from [] s"

definition digit_char :: "nat \<Rightarrow> char" where
  "digit_char d = ''0123456789'' ! d"

function str_of_nat :: "nat \<Rightarrow> string" where
  \<comment> \<open>\<open>str(n)\<close> for a natural number\<close>
  "str_of_nat n = (if n < 10 then [digit_char n] else str_of_nat (n div 10) @ [digit_char (n mod 10)])"
  by pat_completeness auto
termination
  by (relation "measure id") auto

declare str_of_nat.simps [simp del]

section \<open>Entity classification\<close>

datatype entity_type = Business | Individual

record classification =
  c_type :: entity_type
  c_confidence :: real
  c_reasoning :: string
  c_business_indicators :: nat
  c_individual_indicators :: nat

subsection \<open>The agentic workflow's classifier (\<open>_classify_entity_node\<close>)\<close>

definition business_indicators :: "string list" where
  "business_indicators = [''LLC'', ''INC'', ''CORP'', ''LTD'', ''LP'', ''COMPANY'', ''ENTERPRISES'']"

definition individual_patterns :: "string list" where
  "individual_patterns = ['','', ''JR'', ''SR'', ''III'']"

definition business_score :: "string \<Rightarrow> nat" where
  "business_score name =
     length (filter (\<lambda>indicator. str_in indicator (str_upper name)) business_indicators)"

definition individual_score :: "string \<Rightarrow> nat" where
  "individual_score name =
     length (filter (\<lambda>pattern. str_in pattern name) individual_patterns)"

definition has_comma :: "string \<Rightarrow> bool" where
  "has_comma name = str_in '','' name"

definition word_count :: "string \<Rightarrow> nat" where
  "word_count name = length (str_split name)"

definition classify_entity_node :: "string \<Rightarrow> classification" where
  "classify_entity_node name =
     (let bs = business_score name; is = individual_score name in
      if bs > 0 then
        \<lparr>c_type = Business, c_confidence = min 0.95 (0.7 + real bs * 0.1),
         c_reasoning = ''Business entity detected: '' @ str_of_nat bs @
                       '' business indicators found'',
         c_business_indicators = bs, c_individual_indicators = is\<rparr>
      else if has_comma name \<and> word_count name = 2 then
        \<lparr>c_type = Individual, c_confidence = 0.9,
         c_reasoning = ''Individual detected: 'Last, First' format'',
         c_business_indicators = bs, c_individual_indicators = is\<rparr>
      else if word_count name = 2 \<and> bs = 0 then
        \<lparr>c_type = Individual, c_confidence = 0.8,
         c_reasoning = ''Individual detected: Two-word name, no business indicators'',
         c_business_indicators = bs, c_individual_indicators = is\<rparr>
      else
        \<lparr>c_type = Business, c_confidence = 0.6,
         c_reasoning = ''Default to business: Ambiguous case'',
         c_business_indicators = bs, c_individual_indicators = is\<rparr>)"

subsection \<open>The production classifier (\<open>EnhancedEntityClassifier.classify_entity\<close>)\<close>

definition BUSINESS_INDICATORS :: "string list" where
  "BUSINESS_INDICATORS =
     [''LLC'', ''INC'', ''CORP'', ''CORPORATION'', ''LTD'', ''LIMITED'',
      ''LP'', ''LLP'', ''CO'', ''COMPANY'', ''ENTERPRISES'', ''GROUP'',
      ''VENTURES'', ''HOLDINGS'', ''MANAGEMENT'', ''INVESTMENTS'',
      ''RESTAURANT'', ''FOODS'', ''CHICKEN'', ''GRILL'']"

record prod_classification =
  p_type :: entity_type
  p_confidence :: real
  p_business_indicators_found :: nat
  p_individual_patterns_matched :: nat

definition prod_business_score :: "string \<Rightarrow> nat" where
  "prod_business_score name =
     length (filter (\<lambda>indicator. str_in indicator (str_upper name)) BUSINESS_INDICATORS)"

definition prod_individual_score :: "string \<Rightarrow> nat" where
  \<comment> \<open>\<open>sum\<close> of the two booleans of \<open>individual_patterns\<close>\<close>
  "prod_individual_score name =
     (if str_in '','' name then 1 else 0) +
     (if length (str_split name) = 2 \<and> prod_business_score name = 0 then 1 else 0)"

definition classify_entity :: "string \<Rightarrow> prod_classification" where
  "classify_entity name =
     (let bs = prod_business_score name; is = prod_individual_score name in
      if bs > 0 then
        \<lparr>p_type = Business, p_confidence = min 0.95 (0.7 + real bs * 0.1),
         p_business_indicators_found = bs, p_individual_patterns_matched = is\<rparr>
      else if is > 0 then
        \<lparr>p_type = Individual, p_confidence = 0.85,
         p_business_indicators_found = bs, p_individual_patterns_matched = is\<rparr>
      else
        \<lparr>p_type = Business, p_confidence = 0.6,
         p_business_indicators_found = bs, p_individual_patterns_matched = is\<rparr>)"

section \<open>The agentic workflow: data\<close>

text \<open>
  Exceptions are values. \<open>Raised msg\<close> stands for an exception raised by an operation
  outside this code (a source call, the workflow runtime) with message \<open>msg\<close>.
\<close>

datatype py_error =
    IndexError
  | KeyError string
  | ZeroDivisionError
  | TypeError string
  | ValueError string
  | RuntimeError string
  | Raised string

record franchisee_record =
  fdd :: string
  fdd_store_no :: string
  fdd_location_name :: string
  franchisee :: string
  fdd_contact_name :: string
  address :: string
  city :: string
  state :: string
  zip :: string
  phone :: string

text \<open>
  What a source call returns: a dict of string fields, in insertion order, and the entry
  \<open>source_confidence\<close> when the dict has one. The empty dict is \<open>([], None)\<close>.
\<close>

type_synonym raw_result = "(string \<times> string) list \<times> real option"

definition truthy_result :: "raw_result \<Rightarrow> bool" where
  \<comment> \<open>\<open>if result:\<close> on a dict\<close>
  "truthy_result r \<longleftrightarrow> fst r \<noteq> [] \<or> snd r \<noteq> None"

text \<open>
  An entry of \<open>state["enrichment_results"]\<close>: the dict
  \<open>{**result, "source": source, "priority": priority}\<close>.
\<close>

record source_result =
  r_fields :: "(string \<times> string) list"
  r_source_confidence :: "real option"
  r_source :: string
  r_priority :: string

definition tag_result :: "raw_result \<Rightarrow> string \<Rightarrow> string \<Rightarrow> source_result" where
  "tag_result result source priority =
     \<lparr>r_fields = fst result, r_source_confidence = snd result,
      r_source = source, r_priority = priority\<rparr>"

record strategy =
  primary_sources :: "string list"
  fallback_sources :: "string list"
  confidence_threshold :: real
  max_sources :: nat
  s_reasoning :: string

record quality_metrics =
  data_consistency :: real
  source_diversity :: nat
  field_completeness :: real
  confidence_stability :: real

record conflict =
  cf_values :: "string list"
  cf_sources :: "string list"

record final_result =
  fr_record :: franchisee_record
  fr_final_data :: "(string \<times> string) list"
  fr_agent_confidence :: real
  fr_enrichment_strategy_used :: string
  fr_data_sources_consulted :: nat
  fr_agent_reasoning :: string
  fr_quality_score :: real
  fr_url_sources :: string

text \<open>
  \<open>EnrichmentState\<close>. The entries that start as the empty dict are options (\<open>None\<close> is
  \<open>{}\<close>: reading a key of it raises \<open>KeyError\<close>). \<open>st_invocations\<close> is not an entry of the
  Python state: it records, in order, each call of a source as (priority, source name).
\<close>

record enrichment_state =
  st_record :: franchisee_record
  st_entity_classification :: "classification option"
  st_enrichment_strategy :: "strategy option"
  st_data_sources_attempted :: "string list"
  st_enrichment_results :: "source_result list"
  st_confidence_scores :: "real list"
  st_quality_metrics :: "quality_metrics option"
  st_conflicts :: "(string \<times> conflict) list"
  st_final_result :: "final_result option"
  st_invocations :: "(string \<times> string) list"

definition initial_state :: "franchisee_record \<Rightarrow> enrichment_state" where
  "initial_state record =
     \<lparr>st_record = record, st_entity_classification = None, st_enrichment_strategy = None,
      st_data_sources_attempted = [], st_enrichment_results = [], st_confidence_scores = [],
      st_quality_metrics = None, st_conflicts = [], st_final_result = None,
      st_invocations = []\<rparr>"

section \<open>Fusion: aggregation and the consistency score\<close>

definition meta_keys :: "string list" where
  "meta_keys = [''source'', ''priority'', ''source_confidence'']"

text \<open>
  \<open>aggregated_data\<close> and \<open>field_sources\<close> are two dicts with the same keys, filled together:
  one association list from a field to its values and their sources, in insertion order.
\<close>

type_synonym aggregated = "(string \<times> string list \<times> string list) list"

fun add_contribution :: "string \<Rightarrow> string \<Rightarrow> string \<Rightarrow> aggregated \<Rightarrow> aggregated" where
  "add_contribution field v src [] = [(field, [v], [src])]"
| "add_contribution field v src ((g, vs, ss) # rest) =
     (if field = g then (g, vs @ [v], ss @ [src]) # rest
      else (g, vs, ss) # add_contribution field v src rest)"

definition aggregate_result :: "source_result \<Rightarrow> aggregated \<Rightarrow> aggregated" where
  \<comment> \<open>the inner loop \<open>for field, value in result.items()\<close>\<close>
  "aggregate_result result agg =
     fold (\<lambda>(field, v) a.
             if field \<notin> set meta_keys \<and> v \<noteq> [] then add_contribution field v (r_source result) a
             else a)
          (r_fields result) agg"

definition aggregate :: "source_result list \<Rightarrow> aggregated" where
  "aggregate results = fold aggregate_result results []"

definition field_consistency :: "string list \<Rightarrow> real" where
  "field_consistency vs =
     (let unique_values = int (length (remdups vs)); total_values = int (length vs)
      in 1 - real_of_int (unique_values - 1) / real_of_int (max 1 (total_values - 1)))"

definition calculate_consistency_score :: "aggregated \<Rightarrow> real" where
  "calculate_consistency_score agg =
     (if agg = [] then 0
      else sum_list (map (\<lambda>(field, vs, ss). field_consistency vs) agg) / real (length agg))"

text \<open>
  The data-consistency score in the words of the specification: the contributions a field
  received, the fields that received at least one, and the mean of the per-field scores.
\<close>

definition contributions :: "source_result list \<Rightarrow> string \<Rightarrow> string list" where
  "contributions results field =
     concat (map (\<lambda>r. map snd (filter (\<lambda>(f, v). f = field \<and> v \<noteq> []) (r_fields r))) results)"

definition contributed_fields :: "source_result list \<Rightarrow> string set" where
  "contributed_fields results =
     set (filter (\<lambda>f. f \<notin> set meta_keys)
            (concat (map (\<lambda>r. map fst (filter (\<lambda>(f, v). v \<noteq> []) (r_fields r))) results)))"

definition spec_field_consistency :: "string list \<Rightarrow> real" where
  "spec_field_consistency vs =
     1 - (real (card (set vs)) - 1) / max 1 (real (length vs) - 1)"

definition spec_data_consistency :: "source_result list \<Rightarrow> real" where
  "spec_data_consistency results =
     (if contributed_fields results = {} then 0
      else (\<Sum>f \<in> contributed_fields results. spec_field_consistency (contributions results f))
           / real (card (contributed_fields results)))"

text \<open>Auxiliary views of the aggregation, used to state its properties.\<close>

definition values_of :: "aggregated \<Rightarrow> string \<Rightarrow> string list" where
  "values_of agg f = (case map_of agg f of None \<Rightarrow> [] | Some (vs, ss) \<Rightarrow> vs)"

definition entries_of :: "source_result \<Rightarrow> (string \<times> string) list" where
  "entries_of r = filter (\<lambda>(f, v). f \<notin> set meta_keys \<and> v \<noteq> []) (r_fields r)"

section \<open>More string operations\<close>

definition str_strip :: "string \<Rightarrow> string" where
  \<comment> \<open>\<open>s.strip()\<close>\<close>
  "str_strip s = rev (dropWhile is_space (rev (dropWhile is_space s)))"

function str_replace :: "string \<Rightarrow> string \<Rightarrow> string \<Rightarrow> string" where
  \<comment> \<open>\<open>s.replace(old, new)\<close> for a non-empty \<open>old\<close>: left to right, non-overlapping\<close>
  "str_replace old new [] = []"
| "str_replace old new (c # cs) =
     (if old \<noteq> [] \<and> prefix old (c # cs)
      then new @ str_replace old new (drop (length old) (c # cs))
      else c # str_replace old new cs)"
  by pat_completeness auto
termination
  by (relation "measure (\<lambda>(old, new, s). length s)") auto

definition str_join :: "string \<Rightarrow> string list \<Rightarrow> string" where
  \<comment> \<open>\<open>sep.join(xs)\<close>\<close>
  "str_join sep xs = (case xs of [] \<Rightarrow> [] | x # rest \<Rightarrow> x @ concat (map (\<lambda>y. sep @ y) rest))"

definition split_comma_once :: "string \<Rightarrow> string \<times> string" where
  \<comment> \<open>\<open>s.split(',', 1)\<close> on a string that contains a comma: the parts before and after the first one\<close>
  "split_comma_once s = (takeWhile (\<lambda>c. c \<noteq> CHR '','') s, drop 1 (dropWhile (\<lambda>c. c \<noteq> CHR '','') s))"

section \<open>The agentic workflow: planning and the simulated sources\<close>

definition plan_enrichment_strategy :: "enrichment_state \<Rightarrow> py_error + enrichment_state" where
  "plan_enrichment_strategy st =
     (case st_entity_classification st of
        None \<Rightarrow> Inl (KeyError ''type'')
      | Some classification \<Rightarrow>
          let strategy =
            (if c_type classification = Business then
               (if str_upper (state (st_record st)) = ''TX'' then
                  \<lparr>primary_sources = [''business_registry'', ''google_places''],
                   fallback_sources = [''corporate_database'', ''linkedin_company''],
                   confidence_threshold = 0.8, max_sources = 4,
                   s_reasoning = ''Texas business registry provides high-quality data''\<rparr>
                else
                  \<lparr>primary_sources = [''business_registry'', ''google_places''],
                   fallback_sources = [''corporate_database'', ''linkedin_company''],
                   confidence_threshold = 0.7, max_sources = 4,
                   s_reasoning = ''Standard business enrichment strategy''\<rparr>)
             else
               \<lparr>primary_sources = [''linkedin_individual'', ''google_search''],
                fallback_sources = [''people_search'', ''social_media''],
                confidence_threshold = 0.7, max_sources = 4,
                s_reasoning = ''Individual-focused enrichment strategy''\<rparr>)
          in Inr (st\<lparr>st_enrichment_strategy := Some strategy,
                     st_data_sources_attempted := [],
                     st_enrichment_results := [],
                     st_confidence_scores := []\<rparr>))"

definition full_address :: "franchisee_record \<Rightarrow> string" where
  \<comment> \<open>the f-string \<open>{address}, {city}, {state} {zip}\<close>\<close>
  "full_address record =
     address record @ '', '' @ city record @ '', '' @ state record @ '' '' @ zip record"

definition call_enrichment_source :: "string \<Rightarrow> franchisee_record \<Rightarrow> string \<Rightarrow> raw_result" where
  "call_enrichment_source source record entity_type =
     (let franchisee_name = franchisee record in
      if source = ''business_registry'' then
        ([(''corporate_name'', franchisee_name),
          (''corporate_address'', ''Registered: '' @ full_address record),
          (''franchisee_owner'',
             str_strip (str_replace '' Inc'' [] (str_replace '' LLC'' [] franchisee_name)))],
         Some 0.9)
      else if source = ''google_places'' then
        ([(''corporate_phone'', phone record),
          (''corporate_address'', ''Verified: '' @ full_address record),
          (''corporate_email'',
             ''info@'' @ take 8 (str_replace '','' [] (str_replace '' '' [] (str_lower franchisee_name)))
               @ ''.com'')],
         Some 0.8)
      else if source = ''corporate_database'' then
        ([(''corporate_name'', franchisee_name),
          (''linkedin'',
             ''https://www.linkedin.com/company/'' @
               str_replace '','' [] (str_replace '' '' ''-'' (str_lower franchisee_name)))],
         Some 0.7)
      else ([], None))"

definition call_individual_enrichment_source ::
    "string \<Rightarrow> franchisee_record \<Rightarrow> string \<Rightarrow> string \<Rightarrow> raw_result" where
  "call_individual_enrichment_source source record first_name last_name =
     (if source = ''linkedin_individual'' then
        ([(''franchisee_owner'', first_name @ '' '' @ last_name),
          (''linkedin'',
             ''https://www.linkedin.com/in/'' @
               str_replace '' '' ''-'' (str_lower first_name @ ''-'' @ str_lower last_name))],
         Some 0.85)
      else if source = ''google_search'' then
        ([(''franchisee_owner'', first_name @ '' '' @ last_name),
          (''corporate_address'', full_address record)],
         Some 0.75)
      else ([], None))"

section \<open>The agentic workflow: executing the sources\<close>

text \<open>
  The loop \<open>for source in sources: result = await call(source); if result: ...\<close>. The call
  is a parameter, so that a source may return anything or raise; an exception leaves the
  loop and the node, as nothing in the node catches it.
\<close>

fun run_sources ::
    "(string \<Rightarrow> py_error + raw_result) \<Rightarrow> string \<Rightarrow> real \<Rightarrow> string list \<Rightarrow>
     enrichment_state \<Rightarrow> py_error + enrichment_state" where
  "run_sources call priority default_confidence [] st = Inr st"
| "run_sources call priority default_confidence (source # rest) st =
     (case call source of
        Inl e \<Rightarrow> Inl e
      | Inr result \<Rightarrow>
          let st1 = st\<lparr>st_invocations := st_invocations st @ [(priority, source)]\<rparr> in
          run_sources call priority default_confidence rest
            (if truthy_result result then
               st1\<lparr>st_enrichment_results :=
                      st_enrichment_results st1 @ [tag_result result source priority],
                    st_data_sources_attempted := st_data_sources_attempted st1 @ [source],
                    st_confidence_scores :=
                      st_confidence_scores st1 @
                        [case snd result of Some c \<Rightarrow> c | None \<Rightarrow> default_confidence]\<rparr>
             else st1))"

definition avg_confidence :: "real list \<Rightarrow> real" where
  "avg_confidence scores = (if scores = [] then 0 else sum_list scores / real (length scores))"

definition execute_business_enrichment ::
    "(string \<Rightarrow> franchisee_record \<Rightarrow> string \<Rightarrow> py_error + raw_result) \<Rightarrow>
     enrichment_state \<Rightarrow> py_error + enrichment_state" where
  "execute_business_enrichment call st =
     (case st_enrichment_strategy st of
        None \<Rightarrow> Inl (KeyError ''primary_sources'')
      | Some strategy \<Rightarrow>
          (case run_sources (\<lambda>source. call source (st_record st) ''business'')
                  ''primary'' 0.7 (primary_sources strategy) st of
             Inl e \<Rightarrow> Inl e
           | Inr st1 \<Rightarrow>
               if avg_confidence (st_confidence_scores st1) < confidence_threshold strategy
               then run_sources (\<lambda>source. call source (st_record st) ''business'')
                      ''fallback'' 0.6 (fallback_sources strategy) st1
               else Inr st1))"

definition parse_name :: "string \<Rightarrow> string \<times> string" where
  \<comment> \<open>(first name, last name) as \<open>_execute_individual_enrichment\<close> parses them\<close>
  "parse_name franchisee_name =
     (if str_in '','' franchisee_name then
        (let parts = split_comma_once franchisee_name;
             last_name = str_strip (fst parts);
             first_name = (if str_strip (snd parts) \<noteq> []
                           then (case str_split (str_strip (snd parts)) of
                                   w # _ \<Rightarrow> w | [] \<Rightarrow> [])
                           else [])
         in (first_name, last_name))
      else
        (let parts = str_split franchisee_name;
             first_name = (case parts of w # _ \<Rightarrow> w | [] \<Rightarrow> []);
             last_name = (if length parts > 1 then str_join '' '' (tl parts) else [])
         in (first_name, last_name)))"

definition execute_individual_enrichment ::
    "(string \<Rightarrow> franchisee_record \<Rightarrow> string \<Rightarrow> string \<Rightarrow> py_error + raw_result) \<Rightarrow>
     enrichment_state \<Rightarrow> py_error + enrichment_state" where
  "execute_individual_enrichment call st =
     (case st_enrichment_strategy st of
        None \<Rightarrow> Inl (KeyError ''primary_sources'')
      | Some strategy \<Rightarrow>
          (let (first_name, last_name) = parse_name (franchisee (st_record st)) in
           run_sources (\<lambda>source. call source (st_record st) first_name last_name)
             ''primary'' 0.8 (primary_sources strategy) st))"

section \<open>The agentic workflow: scoring, conflicts, resolution, final result\<close>

text \<open>
  \<open>list(set(values))\<close> lists the distinct values in the iteration order of a Python set of
  strings, which depends on the strings' hashes (salted per process). The order is a
  parameter \<open>set_to_list\<close>; \<open>set_iteration\<close> says what every such order satisfies.
\<close>

definition set_iteration :: "(string list \<Rightarrow> string list) \<Rightarrow> bool" where
  "set_iteration set_to_list \<longleftrightarrow>
     (\<forall>vs. distinct (set_to_list vs) \<and> set (set_to_list vs) = set vs)"

definition confidence_stability_of :: "real list \<Rightarrow> py_error + real" where
  \<comment> \<open>\<open>min(scores) / max(scores) if scores else 0\<close>\<close>
  "confidence_stability_of scores =
     (if scores = [] then Inr 0
      else if Max (set scores) = 0 then Inl ZeroDivisionError
      else Inr (Min (set scores) / Max (set scores)))"

definition detect_conflicts ::
    "(string list \<Rightarrow> string list) \<Rightarrow> aggregated \<Rightarrow> (string \<times> conflict) list" where
  "detect_conflicts set_to_list agg =
     concat (map (\<lambda>(field, vs, ss).
                    let unique_values = set_to_list vs in
                    if length unique_values > 1
                    then [(field, \<lparr>cf_values = unique_values, cf_sources = ss\<rparr>)]
                    else [])
                 agg)"

definition validate_and_score_results ::
    "(string list \<Rightarrow> string list) \<Rightarrow> enrichment_state \<Rightarrow> py_error + enrichment_state" where
  "validate_and_score_results set_to_list st =
     (let aggregated_data = aggregate (st_enrichment_results st) in
      case confidence_stability_of (st_confidence_scores st) of
        Inl e \<Rightarrow> Inl e
      | Inr stability \<Rightarrow>
          Inr (st\<lparr>st_quality_metrics :=
                     Some \<lparr>data_consistency = calculate_consistency_score aggregated_data,
                           source_diversity = length (remdups (st_data_sources_attempted st)),
                           field_completeness = real (length aggregated_data) / 6,
                           confidence_stability = stability\<rparr>,
                   st_conflicts := detect_conflicts set_to_list aggregated_data\<rparr>))"

fun index_of :: "'a \<Rightarrow> 'a list \<Rightarrow> nat" where
  \<comment> \<open>\<open>xs.index(x)\<close> for an \<open>x\<close> that occurs in \<open>xs\<close>\<close>
  "index_of x [] = 0"
| "index_of x (y # ys) = (if x = y then 0 else Suc (index_of x ys))"

definition max_by_len :: "string list \<Rightarrow> string" where
  \<comment> \<open>\<open>max(values, key=len)\<close> on a non-empty list: the first of the longest strings\<close>
  "max_by_len vs = foldl (\<lambda>best v. if length v > length best then v else best) (hd vs) (tl vs)"

text \<open>
  One iteration of the loop of \<open>_resolve_data_conflicts\<close>. The test
  \<open>"Verified:" in str(values)\<close> searches the printed list; the marker has no quote,
  comma, blank or backslash, so it occurs there exactly when it occurs in one of the values.
\<close>

definition resolve_conflict :: "conflict \<Rightarrow> py_error + string" where
  "resolve_conflict c =
     (let values = cf_values c; sources = cf_sources c in
      if ''business_registry'' \<in> set sources then
        (let registry_idx = index_of ''business_registry'' sources in
         if registry_idx < length values then Inr (values ! registry_idx) else Inl IndexError)
      else if list_ex (str_in ''Verified:'') values then
        (case filter (str_in ''Verified:'') values of
           verified_value # _ \<Rightarrow> Inr verified_value
         | [] \<Rightarrow> Inl IndexError)
      else if length values < 2 then Inl IndexError
      else if length (values ! 0) > length (values ! 1) then Inr (max_by_len values)
      else Inr (values ! 0))"

fun resolve_all :: "(string \<times> conflict) list \<Rightarrow> py_error + (string \<times> string) list" where
  "resolve_all [] = Inr []"
| "resolve_all ((field, c) # rest) =
     (case resolve_conflict c of
        Inl e \<Rightarrow> Inl e
      | Inr resolved_value \<Rightarrow>
          (case resolve_all rest of
             Inl e \<Rightarrow> Inl e
           | Inr resolved_data \<Rightarrow> Inr ((field, resolved_value) # resolved_data)))"

definition apply_resolved :: "(string \<times> string) list \<Rightarrow> source_result \<Rightarrow> source_result" where
  \<comment> \<open>\<open>if field in result: result[field] = resolved_value\<close>, for every resolved field\<close>
  "apply_resolved resolved_data result =
     result\<lparr>r_fields :=
       map (\<lambda>(field, v). case map_of resolved_data field of
                            Some resolved_value \<Rightarrow> (field, resolved_value)
                          | None \<Rightarrow> (field, v))
           (r_fields result)\<rparr>"

definition resolve_data_conflicts :: "enrichment_state \<Rightarrow> py_error + enrichment_state" where
  "resolve_data_conflicts st =
     (case resolve_all (st_conflicts st) of
        Inl e \<Rightarrow> Inl e
      | Inr resolved_data \<Rightarrow>
          Inr (st\<lparr>st_enrichment_results :=
                     map (apply_resolved resolved_data) (st_enrichment_results st)\<rparr>))"

definition merge_final_data :: "source_result list \<Rightarrow> (string \<times> string) list" where
  \<comment> \<open>\<open>final_data\<close>: per field, the first non-empty value in the order of the results\<close>
  "merge_final_data results =
     fold (\<lambda>result final_data.
             fold (\<lambda>(field, v) fd.
                     if field \<notin> set meta_keys \<and> v \<noteq> [] \<and> map_of fd field = None
                     then fd @ [(field, v)] else fd)
                  (r_fields result) final_data)
          results []"

definition round_half_even :: "real \<Rightarrow> int" where
  \<comment> \<open>the nearest integer, a tie going to the even one\<close>
  "round_half_even y =
     (let f = \<lfloor>y\<rfloor>; d = y - real_of_int f in
      if d < 1 / 2 then f else if d > 1 / 2 then f + 1 else if even f then f else f + 1)"

definition py_round3 :: "real \<Rightarrow> real" where
  \<comment> \<open>\<open>round(x, 3)\<close>: the nearest multiple of 0.001, a tie going to the even one\<close>
  "py_round3 x = real_of_int (round_half_even (x * 1000)) / 1000"

definition fmt_2f :: "real \<Rightarrow> string" where
  \<comment> \<open>the format \<open>:.2f\<close> of a non-negative number\<close>
  "fmt_2f x =
     (let n = nat (round_half_even (x * 100)) in
      str_of_nat (n div 100) @ ''.'' @ [digit_char (n mod 100 div 10), digit_char (n mod 10)])"

definition type_name :: "entity_type \<Rightarrow> string" where
  "type_name t = (case t of Business \<Rightarrow> ''business'' | Individual \<Rightarrow> ''individual'')"

definition agent_confidence_of :: "classification \<Rightarrow> quality_metrics \<Rightarrow> real" where
  "agent_confidence_of classification quality_metrics =
     c_confidence classification * 0.3 +
     data_consistency quality_metrics * 0.3 +
     field_completeness quality_metrics * 0.2 +
     min 1 (real (source_diversity quality_metrics) / 3) * 0.2"

definition quality_score_of :: "quality_metrics \<Rightarrow> real" where
  \<comment> \<open>\<open>sum(quality_metrics.values()) / len(quality_metrics)\<close>: the four entries\<close>
  "quality_score_of quality_metrics =
     (data_consistency quality_metrics + real (source_diversity quality_metrics) +
      field_completeness quality_metrics + confidence_stability quality_metrics) / 4"

definition finalize_enrichment_result :: "enrichment_state \<Rightarrow> py_error + enrichment_state" where
  "finalize_enrichment_result st =
     (case (st_entity_classification st, st_quality_metrics st, st_enrichment_strategy st) of
        (None, _, _) \<Rightarrow> Inl (KeyError ''confidence'')
      | (Some _, None, _) \<Rightarrow> Inl (KeyError ''data_consistency'')
      | (Some _, Some _, None) \<Rightarrow> Inl (KeyError ''reasoning'')
      | (Some classification, Some quality_metrics, Some strategy) \<Rightarrow>
          Inr (st\<lparr>st_final_result := Some
                \<lparr>fr_record = st_record st,
                 fr_final_data = merge_final_data (st_enrichment_results st),
                 fr_agent_confidence =
                   py_round3 (agent_confidence_of classification quality_metrics),
                 fr_enrichment_strategy_used = s_reasoning strategy,
                 fr_data_sources_consulted = length (st_data_sources_attempted st),
                 fr_agent_reasoning =
                   str_join ''; ''
                     [''Entity: '' @ type_name (c_type classification) @ '' ('' @
                        fmt_2f (c_confidence classification) @ '')'',
                      ''Sources: '' @ str_of_nat (length (st_data_sources_attempted st)),
                      ''Consistency: '' @ fmt_2f (data_consistency quality_metrics),
                      ''Completeness: '' @ fmt_2f (field_completeness quality_metrics)],
                 fr_quality_score = py_round3 (quality_score_of quality_metrics),
                 fr_url_sources = str_join ''; '' (map r_source (st_enrichment_results st))\<rparr>\<rparr>))"

section \<open>The agentic workflow: the graph and the batch loop\<close>

definition classify_node :: "enrichment_state \<Rightarrow> py_error + enrichment_state" where
  \<comment> \<open>\<open>_classify_entity_node\<close> as a node: it classifies the record's franchisee name\<close>
  "classify_node st =
     Inr (st\<lparr>st_entity_classification :=
                Some (classify_entity_node (franchisee (st_record st)))\<rparr>)"

record sources =
  src_business :: "string \<Rightarrow> franchisee_record \<Rightarrow> string \<Rightarrow> py_error + raw_result"
  src_individual :: "string \<Rightarrow> franchisee_record \<Rightarrow> string \<Rightarrow> string \<Rightarrow> py_error + raw_result"
  src_set_to_list :: "string list \<Rightarrow> string list"

definition bind :: "py_error + 'a \<Rightarrow> ('a \<Rightarrow> py_error + 'b) \<Rightarrow> py_error + 'b" where
  "bind m f = (case m of Inl e \<Rightarrow> Inl e | Inr x \<Rightarrow> f x)"

text \<open>
  The compiled graph. Its state schema is \<open>EnrichmentState\<close>, and the runtime hands on,
  of the dict a node returns, the entries of the schema only. \<open>conflicts\<close>, which
  \<open>_validate_and_score_results\<close> stores, is not a key of the schema: the router and the
  nodes after it read a state without it.
\<close>

definition keep_schema :: "enrichment_state \<Rightarrow> enrichment_state" where
  "keep_schema st = st\<lparr>st_conflicts := []\<rparr>"

definition route_enrichment :: "sources \<Rightarrow> enrichment_state \<Rightarrow> py_error + enrichment_state" where
  \<comment> \<open>the conditional edge \<open>_route_enrichment_strategy\<close> and the node it selects\<close>
  "route_enrichment env st =
     (case st_entity_classification st of
        None \<Rightarrow> Inl (KeyError ''type'')
      | Some classification \<Rightarrow>
          if c_type classification = Business
          then execute_business_enrichment (src_business env) st
          else execute_individual_enrichment (src_individual env) st)"

text \<open>
  A run: classify, plan, the enrichment node chosen by the entity type, validate and
  score, resolve when the router finds conflicts, finalize. An exception of a node ends
  the run.
\<close>

definition run_workflow :: "sources \<Rightarrow> enrichment_state \<Rightarrow> py_error + enrichment_state" where
  "run_workflow env st0 =
     bind (classify_node st0) (\<lambda>st1.
     bind (plan_enrichment_strategy st1) (\<lambda>st2.
     bind (route_enrichment env st2) (\<lambda>st3.
     bind (validate_and_score_results (src_set_to_list env) st3) (\<lambda>st4.
     bind (if st_conflicts (keep_schema st4) \<noteq> []
           then resolve_data_conflicts (keep_schema st4) else Inr (keep_schema st4))
       finalize_enrichment_result))))"

definition simulated_sources :: "(string list \<Rightarrow> string list) \<Rightarrow> sources" where
  \<comment> \<open>the sources of the repository, which never raise\<close>
  "simulated_sources set_to_list =
     \<lparr>src_business = (\<lambda>source record entity_type.
                         Inr (call_enrichment_source source record entity_type)),
      src_individual = (\<lambda>source record first_name last_name.
                         Inr (call_individual_enrichment_source source record first_name last_name)),
      src_set_to_list = set_to_list\<rparr>"

text \<open>
  \<open>AgenticEnrichmentResult\<close>: the record's fields, the entries of \<open>final_data\<close> (in the
  dict that is passed to the constructor they come after the record's entries and before
  the metrics; an enrichment field not listed keeps the default \<open>""\<close>) and the workflow's
  metrics. The execution time and the timestamp are left out.
\<close>

record agentic_enrichment_result =
  ar_record :: franchisee_record
  ar_enriched :: "(string \<times> string) list"
  ar_agent_confidence :: real
  ar_enrichment_strategy_used :: string
  ar_data_sources_consulted :: nat
  ar_agent_reasoning :: string
  ar_quality_score :: real
  ar_url_sources :: string

definition error_message :: "py_error \<Rightarrow> string" where
  \<comment> \<open>\<open>str(e)\<close>\<close>
  "error_message e =
     (case e of
        IndexError \<Rightarrow> ''list index out of range''
      | KeyError k \<Rightarrow> [CHR 0x27] @ k @ [CHR 0x27]
      | TypeError msg \<Rightarrow> msg
      | ZeroDivisionError \<Rightarrow> ''float division by zero''
      | ValueError msg \<Rightarrow> msg
      | RuntimeError msg \<Rightarrow> msg
      | Raised msg \<Rightarrow> msg)"

definition result_of_final :: "final_result \<Rightarrow> agentic_enrichment_result" where
  "result_of_final fr =
     \<lparr>ar_record = fr_record fr, ar_enriched = fr_final_data fr,
      ar_agent_confidence = fr_agent_confidence fr,
      ar_enrichment_strategy_used = fr_enrichment_strategy_used fr,
      ar_data_sources_consulted = fr_data_sources_consulted fr,
      ar_agent_reasoning = fr_agent_reasoning fr,
      ar_quality_score = fr_quality_score fr,
      ar_url_sources = fr_url_sources fr\<rparr>"

definition failed_result :: "franchisee_record \<Rightarrow> py_error \<Rightarrow> agentic_enrichment_result" where
  \<comment> \<open>the minimal result of the \<open>except\<close> branch\<close>
  "failed_result record e =
     \<lparr>ar_record = record, ar_enriched = [],
      ar_agent_confidence = 0,
      ar_enrichment_strategy_used = ''Failed'',
      ar_data_sources_consulted = 0,
      ar_agent_reasoning = ''Error: '' @ error_message e,
      ar_quality_score = 0,
      ar_url_sources = []\<rparr>"

text \<open>
  One iteration of \<open>process_records_agentic\<close>. \<open>ainvoke\<close> is the compiled workflow run on
  the initial state of the record; it returns the final state or raises. A final state
  whose \<open>final_result\<close> is still the empty dict, or has a key that is not a field of the
  result, makes the result's constructor raise, inside the same \<open>try\<close>.
\<close>

definition result_fields :: "string list" where
  \<comment> \<open>the fields of the dataclass \<open>AgenticEnrichmentResult\<close>\<close>
  "result_fields =
     [''fdd'', ''fdd_store_no'', ''fdd_location_name'', ''franchisee'', ''fdd_contact_name'',
      ''address'', ''city'', ''state'', ''zip'', ''phone'',
      ''franchisee_owner'', ''corporate_name'', ''corporate_address'', ''corporate_phone'',
      ''corporate_email'', ''linkedin'', ''url_sources'',
      ''agent_confidence'', ''enrichment_strategy_used'', ''data_sources_consulted'',
      ''agent_reasoning'', ''workflow_execution_time'', ''quality_score'',
      ''processing_timestamp'', ''pipeline_version'']"

definition constructor_accepts :: "(string \<times> string) list \<Rightarrow> bool" where
  \<comment> \<open>the keywords \<open>**final_result\<close> are fields, and none of them is passed a second time\<close>
  "constructor_accepts final_data =
     list_all (\<lambda>key. key \<in> set result_fields \<and>
                     key \<noteq> ''workflow_execution_time'' \<and> key \<noteq> ''processing_timestamp'')
              (map fst final_data)"

text \<open>The messages of the constructor's \<open>TypeError\<close>, in the wording of CPython 3.10 and later.\<close>

definition quoted :: "string \<Rightarrow> string" where
  "quoted s = [CHR 0x27] @ s @ [CHR 0x27]"

definition missing_arguments_message :: string where
  "missing_arguments_message =
     ''AgenticEnrichmentResult.__init__() missing 10 required positional arguments: '' @
     str_join '', '' (map quoted [''fdd'', ''fdd_store_no'', ''fdd_location_name'', ''franchisee'',
                                  ''fdd_contact_name'', ''address'', ''city'', ''state'', ''zip'']) @
     '', and '' @ quoted ''phone''"

definition rejected_keyword_message :: "string list \<Rightarrow> string" where
  \<comment> \<open>a keyword passed twice is found at the call, before an unknown one\<close>
  "rejected_keyword_message keys =
     (if ''workflow_execution_time'' \<in> set keys then
        ''__main__.AgenticEnrichmentResult() got multiple values for keyword argument '' @
        quoted ''workflow_execution_time''
      else if ''processing_timestamp'' \<in> set keys then
        ''__main__.AgenticEnrichmentResult() got multiple values for keyword argument '' @
        quoted ''processing_timestamp''
      else
        ''AgenticEnrichmentResult.__init__() got an unexpected keyword argument '' @
        quoted (case filter (\<lambda>key. key \<notin> set result_fields) keys of
                  key # _ \<Rightarrow> key | [] \<Rightarrow> []))"

definition process_record_agentic ::
    "(enrichment_state \<Rightarrow> py_error + enrichment_state) \<Rightarrow> franchisee_record \<Rightarrow>
     agentic_enrichment_result" where
  "process_record_agentic ainvoke record =
     (case ainvoke (initial_state record) of
        Inl e \<Rightarrow> failed_result record e
      | Inr final_state \<Rightarrow>
          (case st_final_result final_state of
             None \<Rightarrow> failed_result record (TypeError missing_arguments_message)
           | Some final_result \<Rightarrow>
               if constructor_accepts (fr_final_data final_result)
               then result_of_final final_result
               else failed_result record
                      (TypeError (rejected_keyword_message (map fst (fr_final_data final_result))))))"

definition process_records_agentic ::
    "(enrichment_state \<Rightarrow> py_error + enrichment_state) \<Rightarrow> franchisee_record list \<Rightarrow>
     agentic_enrichment_result list" where
  "process_records_agentic ainvoke records =
     fold (\<lambda>record results. results @ [process_record_agentic ainvoke record]) records []"

section \<open>The production pipeline: configuration\<close>

record processing_config =
  max_concurrent_requests :: int
  batch_size :: int
  rate_limit_delay_seconds :: real
  sample_size :: "int option"
  max_retries :: int
  retry_delay_seconds :: real
  timeout_seconds :: int

record data_quality_config =
  minimum_confidence_threshold :: real
  high_confidence_threshold :: real

record pipeline_config =
  processing :: processing_config
  data_quality :: data_quality_config
  input_file :: string
  environment :: string

definition validate_config :: "(string \<Rightarrow> bool) \<Rightarrow> pipeline_config \<Rightarrow> string list" where
  \<comment> \<open>the list of issues; \<open>path_exists\<close> is the file system's answer to \<open>Path(p).exists()\<close>\<close>
  "validate_config path_exists config =
     (if max_concurrent_requests (processing config) \<le> 0
      then [''max_concurrent_requests must be positive''] else []) @
     (if batch_size (processing config) \<le> 0
      then [''batch_size must be positive''] else []) @
     (if \<not> (0 \<le> minimum_confidence_threshold (data_quality config) \<and>
             minimum_confidence_threshold (data_quality config) \<le> 1)
      then [''minimum_confidence_threshold must be between 0 and 1''] else []) @
     (if \<not> (0 \<le> high_confidence_threshold (data_quality config) \<and>
             high_confidence_threshold (data_quality config) \<le> 1)
      then [''high_confidence_threshold must be between 0 and 1''] else []) @
     (if minimum_confidence_threshold (data_quality config) >
         high_confidence_threshold (data_quality config)
      then [''minimum_confidence_threshold cannot be greater than high_confidence_threshold'']
      else []) @
     (if \<not> path_exists (input_file config)
      then [''Input file does not exist: '' @ input_file config] else [])"

text \<open>
  \<open>ProductionFranchiseeEnrichmentPipeline\<close>: its configuration and its counters.
  \<open>pipeline_init\<close> is \<open>__init__\<close> after \<open>load_config\<close> has returned the configuration.
\<close>

record pipeline =
  pl_config :: pipeline_config
  successful_enrichments :: nat
  failed_enrichments :: nat

definition pipeline_init :: "(string \<Rightarrow> bool) \<Rightarrow> pipeline_config \<Rightarrow> py_error + pipeline" where
  "pipeline_init path_exists config =
     (let config_issues = validate_config path_exists config in
      if config_issues \<noteq> []
      then Inl (ValueError (''Configuration validation failed: ['' @
                  str_join '', '' (map (\<lambda>issue. [CHR 0x27] @ issue @ [CHR 0x27]) config_issues) @
                  '']''))
      else Inr \<lparr>pl_config = config, successful_enrichments = 0, failed_enrichments = 0\<rparr>)"

section \<open>The production pipeline: the batch loop\<close>

definition py_prefix :: "int \<Rightarrow> 'a list \<Rightarrow> 'a list" where
  \<comment> \<open>the slice \<open>xs[:k]\<close>; a negative \<open>k\<close> counts from the end\<close>
  "py_prefix k xs = (if k \<ge> 0 then take (nat k) xs else take (nat (int (length xs) + k)) xs)"

function batches :: "nat \<Rightarrow> 'a list \<Rightarrow> 'a list list" where
  \<comment> \<open>\<open>records[i:i + batch_size]\<close> for \<open>i\<close> in \<open>range(0, len(records), batch_size)\<close>, \<open>batch_size > 0\<close>\<close>
  "batches n xs = (if n = 0 \<or> xs = [] then [] else take n xs # batches n (drop n xs))"
  by pat_completeness auto
termination
  by (relation "measure (\<lambda>(n, xs). length xs)") auto

declare batches.simps [simp del]

text \<open>
  One batch: \<open>asyncio.gather(..., return_exceptions=True)\<close> gives, in the order of the batch,
  the enriched record or the exception of each record; the loop keeps the former and
  counts both. \<open>enrich\<close> is \<open>enricher.enrich_record\<close>.
\<close>

fun process_batch ::
    "('r \<Rightarrow> py_error + 'e) \<Rightarrow> 'r list \<Rightarrow> 'e list \<times> nat \<times> nat \<Rightarrow> 'e list \<times> nat \<times> nat" where
  "process_batch enrich [] acc = acc"
| "process_batch enrich (record # rest) (all_results, ok, failed) =
     (case enrich record of
        Inl e \<Rightarrow> process_batch enrich rest (all_results, ok, Suc failed)
      | Inr result \<Rightarrow> process_batch enrich rest (all_results @ [result], Suc ok, failed))"

definition process_records ::
    "('r \<Rightarrow> py_error + 'e) \<Rightarrow> pipeline \<Rightarrow> 'r list \<Rightarrow> py_error + ('e list \<times> pipeline)" where
  "process_records enrich p records0 =
     (let records =
            (case sample_size (processing (pl_config p)) of
               None \<Rightarrow> records0
             | Some n \<Rightarrow> if n \<noteq> 0 \<and> int (length records0) > n then py_prefix n records0
                         else records0);
          bs = batch_size (processing (pl_config p))
      in if bs = 0 then Inl ZeroDivisionError
         else
           (let (all_results, ok, failed) =
                  fold (process_batch enrich)
                    (if bs < 0 then [] else batches (nat bs) records)
                    ([], successful_enrichments p, failed_enrichments p)
            in Inr (all_results, p\<lparr>successful_enrichments := ok, failed_enrichments := failed\<rparr>)))"

text \<open>
  \<open>main\<close>: the pipeline is constructed, its configuration is then overridden
  (all records, 10 concurrent requests, batches of 20), and the loaded records are processed.
\<close>

definition main_production ::
    "(string \<Rightarrow> bool) \<Rightarrow> pipeline_config \<Rightarrow> ('r \<Rightarrow> py_error + 'e) \<Rightarrow> 'r list \<Rightarrow>
     py_error + ('e list \<times> pipeline)" where
  "main_production path_exists config enrich records =
     (case pipeline_init path_exists config of
        Inl e \<Rightarrow> Inl e
      | Inr p \<Rightarrow>
          process_records enrich
            (p\<lparr>pl_config := (pl_config p)\<lparr>environment := ''production'',
                 processing := (processing (pl_config p))\<lparr>sample_size := None,
                   max_concurrent_requests := 10, batch_size := 20\<rparr>\<rparr>\<rparr>)
            records)"

section \<open>The production enricher: tasks with retries\<close>

text \<open>
  A task is the coroutine object of one source call; what its first \<open>await\<close> gives is its
  outcome. Awaiting the same coroutine object again raises \<open>RuntimeError\<close>.
\<close>

type_synonym task = "py_error + (string \<times> string) list"

datatype event =
    Awaited nat
  | Warned
  | Slept real
  | ErrorLogged

definition await_task :: "task \<Rightarrow> nat \<Rightarrow> py_error + (string \<times> string) list" where
  "await_task outcome attempt =
     (if attempt = 0 then outcome
      else Inl (RuntimeError ''cannot reuse already awaited coroutine''))"

fun retry_loop ::
    "task \<Rightarrow> int \<Rightarrow> real \<Rightarrow> nat \<Rightarrow> nat \<Rightarrow> (string \<times> string) list option \<times> event list" where
  \<comment> \<open>\<open>for attempt in range(max_retries)\<close>, from \<open>attempt\<close> on, with \<open>remaining\<close> iterations left\<close>
  "retry_loop outcome retries delay attempt 0 = (None, [])"
| "retry_loop outcome retries delay attempt (Suc remaining) =
     (case await_task outcome attempt of
        Inr result \<Rightarrow> (if result \<noteq> [] then Some result else None, [Awaited attempt])
      | Inl e \<Rightarrow>
          (let (r, events) = retry_loop outcome retries delay (Suc attempt) remaining in
           (r, [Awaited attempt, Warned] @
               (if int attempt < retries - 1 then [Slept delay] else [ErrorLogged]) @
               events)))"

fun execute_enrichment_tasks ::
    "processing_config \<Rightarrow> task list \<Rightarrow>
     (string \<times> string) list list \<times> nat \<times> event list \<Rightarrow>
     (string \<times> string) list list \<times> nat \<times> event list" where
  \<comment> \<open>the state is (\<open>results\<close>, \<open>enrichment_sources_used\<close>, the events so far)\<close>
  "execute_enrichment_tasks cfg [] acc = acc"
| "execute_enrichment_tasks cfg (t # tasks) (results, used, events) =
     (case retry_loop t (max_retries cfg) (retry_delay_seconds cfg) 0 (nat (max_retries cfg)) of
        (Some result, evs) \<Rightarrow>
          execute_enrichment_tasks cfg tasks (results @ [result], Suc used, events @ evs)
      | (None, evs) \<Rightarrow>
          execute_enrichment_tasks cfg tasks (results, used, events @ evs))"

section \<open>The production enricher: merging and data quality\<close>

text \<open>
  An \<open>EnrichedFranchiseeRecord\<close> object, by its attributes: \<open>hasattr\<close> is membership in
  the domain, \<open>getattr\<close> the lookup, \<open>setattr\<close> the update. The dataclass's fields are
  strings or numbers; the special attributes every Python object has are left out.
\<close>

datatype attr = Str string | Num real

type_synonym pyobj = "string \<Rightarrow> attr option"

definition truthy :: "attr \<Rightarrow> bool" where
  "truthy a = (case a of Str s \<Rightarrow> s \<noteq> [] | Num x \<Rightarrow> x \<noteq> 0)"

definition new_enriched :: "string \<Rightarrow> franchisee_record \<Rightarrow> pyobj" where
  \<comment> \<open>\<open>EnrichedFranchiseeRecord(**asdict(record))\<close>, created at time \<open>now\<close>\<close>
  "new_enriched now record =
     map_of
       [(''fdd'', Str (fdd record)), (''fdd_store_no'', Str (fdd_store_no record)),
        (''fdd_location_name'', Str (fdd_location_name record)),
        (''franchisee'', Str (franchisee record)),
        (''fdd_contact_name'', Str (fdd_contact_name record)),
        (''address'', Str (address record)), (''city'', Str (city record)),
        (''state'', Str (state record)), (''zip'', Str (zip record)),
        (''phone'', Str (phone record)),
        (''franchisee_owner'', Str []), (''corporate_name'', Str []),
        (''corporate_address'', Str []), (''corporate_phone'', Str []),
        (''corporate_email'', Str []), (''linkedin'', Str []), (''url_sources'', Str []),
        (''confidence_score'', Num 0), (''processing_time_seconds'', Num 0),
        (''enrichment_sources_used'', Num 0), (''data_quality_score'', Num 0),
        (''enrichment_timestamp'', Str now), (''pipeline_version'', Str [])]"

definition merge_entry :: "pyobj \<Rightarrow> string \<Rightarrow> string \<Rightarrow> py_error + pyobj" where
  \<comment> \<open>the body of the loop \<open>for key, value in data.items()\<close>\<close>
  "merge_entry enriched key v =
     (case enriched key of
        None \<Rightarrow> Inr enriched
      | Some current_value \<Rightarrow>
          if v = [] then Inr enriched
          else if \<not> truthy current_value then Inr (enriched(key \<mapsto> Str v))
          else if key = ''corporate_address'' \<and> str_in ''Verified:'' v
            then Inr (enriched(key \<mapsto> Str v))
          else if key = ''corporate_phone'' then
            (case current_value of
               Str current \<Rightarrow>
                 if length v > length current then Inr (enriched(key \<mapsto> Str v))
                 else Inr enriched
             | Num x \<Rightarrow> Inl (TypeError ''object of type 'float' has no len()''))
          else Inr enriched)"

fun merge_enrichment_data :: "pyobj \<Rightarrow> (string \<times> string) list \<Rightarrow> py_error + pyobj" where
  "merge_enrichment_data enriched [] = Inr enriched"
| "merge_enrichment_data enriched ((key, v) # rest) =
     (case merge_entry enriched key v of
        Inl e \<Rightarrow> Inl e
      | Inr enriched1 \<Rightarrow> merge_enrichment_data enriched1 rest)"

definition attr_str :: "pyobj \<Rightarrow> string \<Rightarrow> string" where
  \<comment> \<open>a string attribute of the record (the enrichment fields hold strings)\<close>
  "attr_str enriched key = (case enriched key of Some (Str s) \<Rightarrow> s | _ \<Rightarrow> [])"

definition is_digit :: "char \<Rightarrow> bool" where
  "is_digit c \<longleftrightarrow> c \<in> set ''0123456789''"

definition quality_penalties :: "pyobj \<Rightarrow> real list" where
  \<comment> \<open>the amounts \<open>_calculate_data_quality_score\<close> subtracts, in its order\<close>
  "quality_penalties enriched =
     (let corporate_phone = attr_str enriched ''corporate_phone'';
          corporate_email = attr_str enriched ''corporate_email'';
          linkedin_url = attr_str enriched ''linkedin''
      in
      [if corporate_phone \<noteq> [] \<and> length (filter is_digit corporate_phone) < 10 then 0.1 else 0,
       if corporate_email \<noteq> [] \<and>
          (\<not> str_in ''@'' corporate_email \<or> \<not> str_in ''.'' corporate_email) then 0.1 else 0,
       if linkedin_url \<noteq> [] \<and> \<not> prefix ''https://linkedin.com'' linkedin_url \<and>
          \<not> prefix ''https://www.linkedin.com'' linkedin_url then 0.05 else 0,
       if attr_str enriched ''franchisee_owner'' = [] then 0.2 else 0,
       if attr_str enriched ''corporate_address'' = [] then 0.1 else 0])"

definition calculate_data_quality_score :: "pyobj \<Rightarrow> real" where
  "calculate_data_quality_score enriched =
     py_round3 (max 0 (fold (\<lambda>penalty quality_score. quality_score - penalty)
                          (quality_penalties enriched) 1))"

section \<open>Example inputs\<close>

definition golden_chick :: franchisee_record where
  "golden_chick =
     \<lparr>fdd = ''Golden Chick'', fdd_store_no = ''101'', fdd_location_name = ''Dallas'',
      franchisee = ''Golden Chick Enterprises LLC'', fdd_contact_name = ''Jane Doe'',
      address = ''123 Main St'', city = ''Dallas'', state = ''TX'', zip = ''75001'',
      phone = ''214-555-0100''\<rparr>"

definition smith_john :: franchisee_record where
  "smith_john =
     \<lparr>fdd = ''Golden Chick'', fdd_store_no = ''102'', fdd_location_name = ''Austin'',
      franchisee = ''Smith, John'', fdd_contact_name = ''John Smith'',
      address = ''9 Oak Ave'', city = ''Austin'', state = ''TX'', zip = ''73301'',
      phone = ''512-555-0199''\<rparr>"

definition enriched_field :: "sources \<Rightarrow> franchisee_record \<Rightarrow> string \<Rightarrow> string option" where
  \<comment> \<open>a field of \<open>final_data\<close> after the workflow ran on the record, if it ran through\<close>
  "enriched_field env record field =
     (case run_workflow env (initial_state record) of
        Inl e \<Rightarrow> None
      | Inr st \<Rightarrow>
          (case st_final_result st of
             None \<Rightarrow> None
           | Some fr \<Rightarrow> map_of (fr_final_data fr) field))"

definition bad_config :: pipeline_config where
  "bad_config =
     \<lparr>processing = \<lparr>max_concurrent_requests = 3, batch_size = 0, rate_limit_delay_seconds = 2,
        sample_size = None, max_retries = 3, retry_delay_seconds = 1, timeout_seconds = 30\<rparr>,
      data_quality = \<lparr>minimum_confidence_threshold = 0.5, high_confidence_threshold = 0.8\<rparr>,
      input_file = ''data/Golden Chick_DE_Takehome.xlsx'', environment = ''development''\<rparr>"

definition example_enriched :: pyobj where
  "example_enriched =
     [''corporate_name'' \<mapsto> Str ''Golden Chick Enterprises LLC'',
      ''corporate_address'' \<mapsto> Str ''TX Registered: 123 Main St, Dallas, TX 75001'',
      ''corporate_phone'' \<mapsto> Str ''555-0100'',
      ''linkedin'' \<mapsto> Str []]"

definition example_data :: "(string \<times> string) list" where
  "example_data =
     [(''corporate_phone'', ''214-555-0100''),
      (''corporate_address'', ''Verified: 123 Main St, Dallas, TX 75001''),
      (''corporate_name'', ''Golden Chick''),
      (''linkedin'', [])]"

definition enriched_of :: "('r \<Rightarrow> py_error + 'e) \<Rightarrow> 'r list \<Rightarrow> 'e list" where
  \<comment> \<open>the enriched records of those records whose enrichment succeeds, in order\<close>
  "enriched_of enrich records =
     concat (map (\<lambda>r. case enrich r of Inl e \<Rightarrow> [] | Inr x \<Rightarrow> [x]) records)"

definition failures_of :: "('r \<Rightarrow> py_error + 'e) \<Rightarrow> 'r list \<Rightarrow> 'r list" where
  \<comment> \<open>the records whose enrichment raises\<close>
  "failures_of enrich records = filter (\<lambda>r. case enrich r of Inl e \<Rightarrow> True | Inr x \<Rightarrow> False) records"

definition sampled :: "pipeline \<Rightarrow> 'r list \<Rightarrow> 'r list" where
  \<comment> \<open>the records left by the sample size limit\<close>
  "sampled p records =
     (case sample_size (processing (pl_config p)) of
        None \<Rightarrow> records
      | Some n \<Rightarrow> if n \<noteq> 0 \<and> int (length records) > n then py_prefix n records else records)"

definition default_config :: pipeline_config where
  "default_config =
     \<lparr>processing = \<lparr>max_concurrent_requests = 3, batch_size = 5, rate_limit_delay_seconds = 2,
        sample_size = None, max_retries = 3, retry_delay_seconds = 1, timeout_seconds = 30\<rparr>,
      data_quality = \<lparr>minimum_confidence_threshold = 0.5, high_confidence_threshold = 0.8\<rparr>,
      input_file = ''data/Golden Chick_DE_Takehome.xlsx'', environment = ''development''\<rparr>"

definition timing_out_sources :: sources where
  \<comment> \<open>the simulated sources, except that the places lookup raises\<close>
  "timing_out_sources =
     \<lparr>src_business = (\<lambda>source record entity_type.
                         if source = ''google_places'' then Inl (Raised ''source timed out'')
                         else Inr (call_enrichment_source source record entity_type)),
      src_individual = (\<lambda>source record first_name last_name.
                         Inr (call_individual_enrichment_source source record first_name last_name)),
      src_set_to_list = remdups\<rparr>"

definition failing_enrich :: "franchisee_record \<Rightarrow> py_error + pyobj" where
  \<comment> \<open>an \<open>enrich_record\<close> that raises on one record\<close>
  "failing_enrich record =
     (if franchisee record = ''Smith, John'' then Inl (Raised ''enrichment failed'')
      else Inr (new_enriched [] record))"

definition default_pipeline :: pipeline where
  "default_pipeline =
     \<lparr>pl_config = default_config, successful_enrichments = 0, failed_enrichments = 0\<rparr>"

definition task_results :: "task list \<Rightarrow> (string \<times> string) list list" where
  \<comment> \<open>the non-empty data of the tasks whose first await returns\<close>
  "task_results tasks =
     concat (map (\<lambda>t. case t of Inl e \<Rightarrow> [] | Inr r \<Rightarrow> if r \<noteq> [] then [r] else []) tasks)"

definition failed_attempts :: "real \<Rightarrow> nat \<Rightarrow> nat \<Rightarrow> event list" where
  \<comment> \<open>attempts \<open>a, a + 1, ..., b - 1\<close>, each failing and followed by the delay\<close>
  "failed_attempts delay a b = concat (map (\<lambda>i. [Awaited i, Warned, Slept delay]) [a..<b])"

definition planned_state :: "franchisee_record \<Rightarrow> enrichment_state" where
  \<comment> \<open>the state of a record after the classification and planning nodes\<close>
  "planned_state record =
     (case bind (classify_node (initial_state record)) plan_enrichment_strategy of
        Inl e \<Rightarrow> initial_state record
      | Inr st \<Rightarrow> st)"

definition conflicted_state :: enrichment_state where
  \<comment> \<open>two fallback sources that disagree on the corporate name, after conflict detection\<close>
  "conflicted_state =
     (initial_state golden_chick)
       \<lparr>st_enrichment_results :=
          [\<lparr>r_fields = [(''corporate_name'', ''Verified: Golden Chick'')],
            r_source_confidence = Some 0.7,
            r_source = ''corporate_database'', r_priority = ''fallback''\<rparr>,
           \<lparr>r_fields = [(''corporate_name'', ''Golden Chick Enterprises LLC'')],
            r_source_confidence = Some 0.6,
            r_source = ''linkedin_company'', r_priority = ''fallback''\<rparr>],
        st_conflicts :=
          [(''corporate_name'',
            \<lparr>cf_values = [''Verified: Golden Chick'', ''Golden Chick Enterprises LLC''],
             cf_sources = [''corporate_database'', ''linkedin_company'']\<rparr>)]\<rparr>"

definition quality_score_for :: "sources \<Rightarrow> franchisee_record \<Rightarrow> real" where
  \<comment> \<open>the \<open>quality_score\<close> of the result the agentic batch loop gives for a record\<close>
  "quality_score_for env record = ar_quality_score (process_record_agentic (run_workflow env) record)"

definition agent_confidence_for :: "sources \<Rightarrow> franchisee_record \<Rightarrow> real" where
  "agent_confidence_for env record =
     ar_agent_confidence (process_record_agentic (run_workflow env) record)"

definition after_enrichment :: "franchisee_record \<Rightarrow> enrichment_state" where
  \<comment> \<open>the state of a business record after the enrichment node ran on the simulated sources\<close>
  "after_enrichment record =
     (case execute_business_enrichment
             (\<lambda>source record entity_type. Inr (call_enrichment_source source record entity_type))
             (planned_state record) of
        Inl e \<Rightarrow> planned_state record
      | Inr st \<Rightarrow> st)"

definition resolved_fields ::
    "(string list \<Rightarrow> string list) \<Rightarrow> enrichment_state \<Rightarrow> py_error + (string \<times> string) list" where
  \<comment> \<open>\<open>resolved_data\<close> of \<open>_resolve_data_conflicts\<close> on the state \<open>_validate_and_score_results\<close> returns\<close>
  "resolved_fields set_to_list st =
     bind (validate_and_score_results set_to_list st) (\<lambda>st1. resolve_all (st_conflicts st1))"




section \<open>Properties of the classifiers\<close>

lemma classify_entity_node_two_words:
  assumes "word_count name = 2" and "business_score name = 0"
  shows "c_type (classify_entity_node name) = Individual"
    and "c_confidence (classify_entity_node name) = (if has_comma name then 0.9 else 0.8)"
  using assms by (simp_all add: classify_entity_node_def Let_def)

lemma business_score_zero_iff:
  "business_score name = 0 \<longleftrightarrow>
     (\<forall>indicator \<in> set business_indicators. \<not> str_in indicator (str_upper name))"
  by (simp add: business_score_def filter_empty_conv)

lemma prod_business_score_zero_iff:
  "prod_business_score name = 0 \<longleftrightarrow>
     (\<forall>indicator \<in> set BUSINESS_INDICATORS. \<not> str_in indicator (str_upper name))"
  by (simp add: prod_business_score_def filter_empty_conv)

text \<open>
  Claim C5, as the code has it. In the agentic classifier a name of exactly two
  whitespace-separated tokens that contains no business indicator (case-insensitively)
  is an individual, with confidence 0.8 when it has no comma and 0.9 when it has one.
  The production classifier gives every such name (with respect to its own, longer
  indicator list) the type individual with confidence 0.85.
\<close>

theorem classify_two_token_names:
  "(length (str_split name) = 2 \<and> \<not> str_in '','' name \<and>
      (\<forall>indicator \<in> set business_indicators. \<not> str_in indicator (str_upper name))
    \<longrightarrow> c_type (classify_entity_node name) = Individual \<and>
        c_confidence (classify_entity_node name) = 0.8) \<and>
   (length (str_split name) = 2 \<and> str_in '','' name \<and>
      (\<forall>indicator \<in> set business_indicators. \<not> str_in indicator (str_upper name))
    \<longrightarrow> c_type (classify_entity_node name) = Individual \<and>
        c_confidence (classify_entity_node name) = 0.9) \<and>
   (length (str_split name) = 2 \<and>
      (\<forall>indicator \<in> set BUSINESS_INDICATORS. \<not> str_in indicator (str_upper name))
    \<longrightarrow> p_type (classify_entity name) = Individual \<and>
        p_confidence (classify_entity name) = 0.85)"
proof (intro conjI impI)
  assume h: "length (str_split name) = 2 \<and> \<not> str_in '','' name \<and>
      (\<forall>indicator \<in> set business_indicators. \<not> str_in indicator (str_upper name))"
  then have "word_count name = 2" "business_score name = 0" "\<not> has_comma name"
    by (simp_all add: word_count_def business_score_zero_iff has_comma_def)
  then show "c_type (classify_entity_node name) = Individual"
    and "c_confidence (classify_entity_node name) = 0.8"
    by (simp_all add: classify_entity_node_two_words)
next
  assume h: "length (str_split name) = 2 \<and> str_in '','' name \<and>
      (\<forall>indicator \<in> set business_indicators. \<not> str_in indicator (str_upper name))"
  then have "word_count name = 2" "business_score name = 0" "has_comma name"
    by (simp_all add: word_count_def business_score_zero_iff has_comma_def)
  then show "c_type (classify_entity_node name) = Individual"
    and "c_confidence (classify_entity_node name) = 0.9"
    by (simp_all add: classify_entity_node_two_words)
next
  assume h: "length (str_split name) = 2 \<and>
      (\<forall>indicator \<in> set BUSINESS_INDICATORS. \<not> str_in indicator (str_upper name))"
  then have "prod_business_score name = 0" "prod_individual_score name > 0"
    by (simp_all add: prod_business_score_zero_iff prod_individual_score_def)
  then show "p_type (classify_entity name) = Individual"
    and "p_confidence (classify_entity name) = 0.85"
    by (simp_all add: classify_entity_def Let_def)
qed

text \<open>
  The theorem at \<open>John Smith\<close> (no comma) and at \<open>Smith, John\<close> (comma): both satisfy
  the hypotheses of the branches they exercise.
\<close>

theorem classify_two_token_names_witness:
  "c_type (classify_entity_node ''John Smith'') = Individual \<and>
   c_confidence (classify_entity_node ''John Smith'') = 0.8 \<and>
   c_type (classify_entity_node ''Smith, John'') = Individual \<and>
   c_confidence (classify_entity_node ''Smith, John'') = 0.9 \<and>
   p_type (classify_entity ''John Smith'') = Individual \<and>
   p_confidence (classify_entity ''John Smith'') = 0.85"
proof -
  have a: "length (str_split ''John Smith'') = 2 \<and> \<not> str_in '','' ''John Smith'' \<and>
      (\<forall>indicator \<in> set business_indicators. \<not> str_in indicator (str_upper ''John Smith''))"
    by code_simp
  have b: "length (str_split ''Smith, John'') = 2 \<and> str_in '','' ''Smith, John'' \<and>
      (\<forall>indicator \<in> set business_indicators. \<not> str_in indicator (str_upper ''Smith, John''))"
    by code_simp
  have c: "length (str_split ''John Smith'') = 2 \<and>
      (\<forall>indicator \<in> set BUSINESS_INDICATORS. \<not> str_in indicator (str_upper ''John Smith''))"
    by code_simp
  from a b c classify_two_token_names [of "''John Smith''"]
    classify_two_token_names [of "''Smith, John''"]
  show ?thesis by blast
qed

text \<open>
  Claim C5 as stated fails: \<open>Smith, John\<close> has two tokens and no business indicator,
  yet its confidence is 0.9 and not 0.8; \<open>Lincoln, John\<close> has a comma and two tokens,
  yet it is classified as a business (\<open>LINCOLN\<close> contains \<open>INC\<close>); and the production
  classifier answers 0.85 for \<open>John Smith\<close>.
\<close>

theorem classify_two_token_names_counterexample:
  "length (str_split ''Smith, John'') = 2 \<and> business_score ''Smith, John'' = 0 \<and>
   c_confidence (classify_entity_node ''Smith, John'') \<noteq> 0.8 \<and>
   length (str_split ''Lincoln, John'') = 2 \<and> str_in '','' ''Lincoln, John'' \<and>
   c_type (classify_entity_node ''Lincoln, John'') = Business \<and>
   c_confidence (classify_entity_node ''Lincoln, John'') \<noteq> 0.9 \<and>
   length (str_split ''John Smith'') = 2 \<and> prod_business_score ''John Smith'' = 0 \<and>
   p_confidence (classify_entity ''John Smith'') \<noteq> 0.8"
  by code_simp

section \<open>Properties of the fusion\<close>

lemma map_fst_add_contribution:
  "map fst (add_contribution f v s agg) =
     (if f \<in> fst ` set agg then map fst agg else map fst agg @ [f])"
  by (induction agg) (force+)

lemma values_of_add_contribution:
  "values_of (add_contribution f v s agg) g =
     (if g = f then values_of agg f @ [v] else values_of agg g)"
  by (induction agg) (auto simp: values_of_def)

lemma aggregate_result_fields:
  "fst ` set (aggregate_result r agg) = fst ` set agg \<union> fst ` set (entries_of r)"
proof -
  have "fst ` set (fold (\<lambda>(field, v) a.
             if field \<notin> set meta_keys \<and> v \<noteq> [] then add_contribution field v src a
             else a) fs agg) = fst ` set agg \<union> fst ` set (filter (\<lambda>(f, v). f \<notin> set meta_keys \<and> v \<noteq> []) fs)" for fs src
  proof (induction fs arbitrary: agg)
    case Nil
    then show ?case by simp
  next
    case (Cons a fs)
    obtain f v where a: "a = (f, v)" by (cases a)
    have *: "fst ` set (add_contribution f v src agg) = insert f (fst ` set agg)"
      using map_fst_add_contribution [of f v src agg]
      by (metis (no_types, lifting) Un_insert_right append_Nil2 insert_absorb list.set_map list.simps(15) set_append)
    show ?case using Cons.IH a * by auto
  qed
  then show ?thesis by (simp add: aggregate_result_def entries_of_def)
qed

lemma aggregate_result_distinct:
  "distinct (map fst agg) \<Longrightarrow> distinct (map fst (aggregate_result r agg))"
proof -
  have "distinct (map fst agg) \<Longrightarrow> distinct (map fst (fold (\<lambda>(field, v) a.
             if field \<notin> set meta_keys \<and> v \<noteq> [] then add_contribution field v src a
             else a) fs agg))" for fs src
  proof (induction fs arbitrary: agg)
    case Nil
    then show ?case by simp
  next
    case (Cons a fs)
    obtain f v where a: "a = (f, v)" by (cases a)
    have "distinct (map fst (add_contribution f v src agg))"
      using Cons.prems by (simp add: map_fst_add_contribution)
    then show ?case using Cons a by auto
  qed
  then show "distinct (map fst agg) \<Longrightarrow> distinct (map fst (aggregate_result r agg))"
    by (simp add: aggregate_result_def)
qed

lemma aggregate_result_values:
  "values_of (aggregate_result r agg) g =
     values_of agg g @ map snd (filter (\<lambda>(f, v). f = g) (entries_of r))"
proof -
  have "values_of (fold (\<lambda>(field, v) a.
             if field \<notin> set meta_keys \<and> v \<noteq> [] then add_contribution field v src a
             else a) fs agg) g =
        values_of agg g @ map snd (filter (\<lambda>(f, v). f = g)
           (filter (\<lambda>(f, v). f \<notin> set meta_keys \<and> v \<noteq> []) fs))" for fs src
  proof (induction fs arbitrary: agg)
    case Nil
    then show ?case by simp
  next
    case (Cons a fs)
    obtain f v where a: "a = (f, v)" by (cases a)
    show ?case using Cons.IH a by (auto simp: values_of_add_contribution)
  qed
  then show ?thesis by (simp add: aggregate_result_def entries_of_def)
qed

lemma fold_aggregate:
  "distinct (map fst agg) \<Longrightarrow>
   distinct (map fst (fold aggregate_result rs agg)) \<and>
   fst ` set (fold aggregate_result rs agg) = fst ` set agg \<union> (\<Union>r \<in> set rs. fst ` set (entries_of r)) \<and>
   (\<forall>g. values_of (fold aggregate_result rs agg) g =
      values_of agg g @ concat (map (\<lambda>r. map snd (filter (\<lambda>(f, v). f = g) (entries_of r))) rs))"
proof (induction rs arbitrary: agg)
  case Nil
  then show ?case by simp
next
  case (Cons r rs)
  have d: "distinct (map fst (aggregate_result r agg))"
    using Cons.prems by (rule aggregate_result_distinct)
  from Cons.IH [OF d] show ?case
    by (auto simp: aggregate_result_fields aggregate_result_values)
qed

lemma aggregate_distinct: "distinct (map fst (aggregate results))"
  using fold_aggregate [of "[]" results] by (simp add: aggregate_def)

lemma aggregate_fields: "fst ` set (aggregate results) = contributed_fields results"
proof -
  have "fst ` set (aggregate results) = (\<Union>r \<in> set results. fst ` set (entries_of r))"
    using fold_aggregate [of "[]" results] by (simp add: aggregate_def)
  also have "\<dots> = contributed_fields results"
    by (auto simp: contributed_fields_def entries_of_def image_iff; blast)
  finally show ?thesis .
qed

lemma aggregate_values:
  assumes "g \<notin> set meta_keys"
  shows "values_of (aggregate results) g = contributions results g"
proof -
  have "values_of (aggregate results) g =
      concat (map (\<lambda>r. map snd (filter (\<lambda>(f, v). f = g) (entries_of r))) results)"
    using fold_aggregate [of "[]" results] by (simp add: aggregate_def values_of_def)
  moreover have "map snd (filter (\<lambda>(f, v). f = g) (entries_of r)) =
      map snd (filter (\<lambda>(f, v). f = g \<and> v \<noteq> []) (r_fields r))" for r
    using assms unfolding entries_of_def filter_filter
    by (intro arg_cong [where f = "map snd"] filter_cong) auto
  ultimately show ?thesis by (simp add: contributions_def)
qed

lemma aggregate_values_nonempty:
  assumes "(f, vs, ss) \<in> set (aggregate results)"
  shows "vs = contributions results f" and "f \<in> contributed_fields results"
    and "contributions results f \<noteq> []"
proof -
  have f: "f \<in> contributed_fields results"
    using assms aggregate_fields [of results] by force
  then have nm: "f \<notin> set meta_keys" by (auto simp: contributed_fields_def)
  have "map_of (aggregate results) f = Some (vs, ss)"
    using assms aggregate_distinct by simp
  then have "values_of (aggregate results) f = vs" by (simp add: values_of_def)
  then show vs: "vs = contributions results f" using aggregate_values [OF nm] by simp
  show "f \<in> contributed_fields results" by (rule f)
  from f obtain r v where "r \<in> set results" "(f, v) \<in> set (r_fields r)" "v \<noteq> []"
    by (auto simp: contributed_fields_def)
  then show "contributions results f \<noteq> []"
    by (auto simp: contributions_def filter_empty_conv)
qed

lemma field_consistency_spec: "field_consistency vs = spec_field_consistency vs"
proof -
  have "real_of_int (max 1 (int (length vs) - 1)) = max 1 (real (length vs) - 1)"
    by (simp add: max_def)
  then show ?thesis
    by (simp add: field_consistency_def spec_field_consistency_def Let_def
        List.card_set [symmetric] del: of_int_max)
qed

lemma consistency_sum:
  "sum_list (map (\<lambda>(field, vs, ss). field_consistency vs) (aggregate results)) =
     (\<Sum>f \<in> contributed_fields results. spec_field_consistency (contributions results f))"
proof -
  have "map (\<lambda>(field, vs, ss). field_consistency vs) (aggregate results) =
        map (\<lambda>f. spec_field_consistency (contributions results f)) (map fst (aggregate results))"
    using aggregate_values_nonempty(1) [of _ _ _ results]
    by (auto simp: field_consistency_spec)
  then have "sum_list (map (\<lambda>(field, vs, ss). field_consistency vs) (aggregate results)) =
        sum_list (map (\<lambda>f. spec_field_consistency (contributions results f)) (map fst (aggregate results)))"
    by (rule arg_cong)
  also have "\<dots> = (\<Sum>f \<in> set (map fst (aggregate results)). spec_field_consistency (contributions results f))"
    using aggregate_distinct [of results] by (rule sum_list_distinct_conv_sum_set)
  also have "set (map fst (aggregate results)) = contributed_fields results"
    using aggregate_fields [of results] by simp
  finally show ?thesis .
qed

lemma length_aggregate: "length (aggregate results) = card (contributed_fields results)"
  using distinct_card [OF aggregate_distinct [of results]] aggregate_fields [of results]
  by simp

lemma consistency_refines_spec:
  "calculate_consistency_score (aggregate results) = spec_data_consistency results"
proof (cases "aggregate results = []")
  case True
  then have "contributed_fields results = {}"
    using aggregate_fields [of results] by simp
  with True show ?thesis
    by (simp add: calculate_consistency_score_def spec_data_consistency_def)
next
  case False
  then have "contributed_fields results \<noteq> {}"
    using aggregate_fields [of results] by auto
  with False show ?thesis
    by (simp add: calculate_consistency_score_def spec_data_consistency_def
        consistency_sum length_aggregate)
qed

lemma spec_field_consistency_le_1:
  assumes "vs \<noteq> []"
  shows "spec_field_consistency vs \<le> 1"
    and "spec_field_consistency vs = 1 \<longleftrightarrow> card (set vs) = 1"
    and "0 \<le> spec_field_consistency vs"
proof -
  have c1: "1 \<le> card (set vs)" using assms by (simp add: card_gt_0_iff Suc_le_eq)
  have c2: "card (set vs) \<le> length vs" by (rule card_length)
  define u where "u = real (card (set vs)) - 1"
  define t where "t = max 1 (real (length vs) - 1)"
  have u0: "0 \<le> u" using c1 by (simp add: u_def)
  have t1: "1 \<le> t" by (simp add: t_def)
  have ut: "u \<le> t" using c2 by (simp add: u_def t_def max_def)
  have sfc: "spec_field_consistency vs = 1 - u / t"
    by (simp add: spec_field_consistency_def u_def t_def)
  have "0 \<le> u / t" using u0 t1 by simp
  then show "spec_field_consistency vs \<le> 1" by (simp add: sfc)
  have "u / t \<le> 1" using ut t1 by (simp add: divide_le_eq)
  then show "0 \<le> spec_field_consistency vs" by (simp add: sfc)
  have "u / t = 0 \<longleftrightarrow> u = 0" using t1 by simp
  also have "\<dots> \<longleftrightarrow> card (set vs) = 1" using c1 by (auto simp: u_def)
  finally show "spec_field_consistency vs = 1 \<longleftrightarrow> card (set vs) = 1" by (simp add: sfc)
qed

lemma finite_contributed_fields: "finite (contributed_fields results)"
  by (simp add: contributed_fields_def)

lemma contributed_nonempty:
  "f \<in> contributed_fields results \<Longrightarrow> contributions results f \<noteq> []"
  by (fastforce simp: contributed_fields_def contributions_def filter_empty_conv)

lemma spec_data_consistency_eq_1:
  assumes "contributed_fields results \<noteq> {}"
  shows "spec_data_consistency results = 1 \<longleftrightarrow>
     (\<forall>f \<in> contributed_fields results. card (set (contributions results f)) = 1)"
proof -
  let ?F = "contributed_fields results"
  let ?g = "\<lambda>f. 1 - spec_field_consistency (contributions results f)"
  have fin: "finite ?F" by (rule finite_contributed_fields)
  have card: "0 < card ?F" using assms fin by (simp add: card_gt_0_iff)
  have nonneg: "\<forall>f \<in> ?F. 0 \<le> ?g f"
    using spec_field_consistency_le_1(1) [OF contributed_nonempty] by simp
  have "(\<Sum>f \<in> ?F. spec_field_consistency (contributions results f)) =
        real (card ?F) - (\<Sum>f \<in> ?F. ?g f)"
    by (simp add: sum_subtractf)
  then have "spec_data_consistency results = (real (card ?F) - (\<Sum>f \<in> ?F. ?g f)) / real (card ?F)"
    using assms by (simp add: spec_data_consistency_def)
  also have "\<dots> = 1 \<longleftrightarrow> (\<Sum>f \<in> ?F. ?g f) = 0"
    using card by (simp add: divide_eq_eq)
  finally have "spec_data_consistency results = 1 \<longleftrightarrow> (\<Sum>f \<in> ?F. ?g f) = 0" .
  also have "(\<Sum>f \<in> ?F. ?g f) = 0 \<longleftrightarrow> (\<forall>f \<in> ?F. ?g f = 0)"
    using nonneg fin by (simp add: sum_nonneg_eq_0_iff)
  also have "\<dots> \<longleftrightarrow> (\<forall>f \<in> ?F. card (set (contributions results f)) = 1)"
    using spec_field_consistency_le_1(2) [OF contributed_nonempty] by auto
  finally show ?thesis .
qed

text \<open>
  Claim C6. The consistency score computed from the aggregated results is the mean, over
  the fields that received at least one contribution, of
  \<open>1 - (distinct - 1) / max 1 (total - 1)\<close>, and 0 when no field received a contribution.
  When at least one field received a contribution, it is 1 exactly when the contributions
  of every field agree.
\<close>

theorem data_consistency_is_mean:
  "calculate_consistency_score (aggregate results) =
     (if contributed_fields results = {} then 0
      else (\<Sum>f \<in> contributed_fields results.
              1 - (real (card (set (contributions results f))) - 1)
                  / max 1 (real (length (contributions results f)) - 1))
           / real (card (contributed_fields results))) \<and>
   (contributed_fields results \<noteq> {} \<longrightarrow>
      (calculate_consistency_score (aggregate results) = 1 \<longleftrightarrow>
         (\<forall>f \<in> contributed_fields results. card (set (contributions results f)) = 1)))"
proof
  show "calculate_consistency_score (aggregate results) =
     (if contributed_fields results = {} then 0
      else (\<Sum>f \<in> contributed_fields results.
              1 - (real (card (set (contributions results f))) - 1)
                  / max 1 (real (length (contributions results f)) - 1))
           / real (card (contributed_fields results)))"
    unfolding consistency_refines_spec spec_data_consistency_def spec_field_consistency_def ..
  show "contributed_fields results \<noteq> {} \<longrightarrow>
      (calculate_consistency_score (aggregate results) = 1 \<longleftrightarrow>
         (\<forall>f \<in> contributed_fields results. card (set (contributions results f)) = 1))"
    by (simp add: consistency_refines_spec spec_data_consistency_eq_1)
qed

text \<open>
  The theorem at two results that agree on \<open>corporate_name\<close> (score 1) and at two results
  that disagree on \<open>corporate_address\<close> (score below 1).
\<close>

theorem data_consistency_is_mean_witness:
  "calculate_consistency_score (aggregate
     [\<lparr>r_fields = [(''corporate_name'', ''Acme LLC'')], r_source_confidence = Some 0.9,
       r_source = ''business_registry'', r_priority = ''primary''\<rparr>,
      \<lparr>r_fields = [(''corporate_name'', ''Acme LLC'')], r_source_confidence = Some 0.7,
       r_source = ''corporate_database'', r_priority = ''fallback''\<rparr>]) = 1 \<and>
   calculate_consistency_score (aggregate
     [\<lparr>r_fields = [(''corporate_address'', ''Registered: 1 Main St'')],
       r_source_confidence = Some 0.9,
       r_source = ''business_registry'', r_priority = ''primary''\<rparr>,
      \<lparr>r_fields = [(''corporate_address'', ''Verified: 1 Main St'')],
       r_source_confidence = Some 0.8,
       r_source = ''google_places'', r_priority = ''primary''\<rparr>]) \<noteq> 1"
proof -
  let ?agree = "[\<lparr>r_fields = [(''corporate_name'', ''Acme LLC'')], r_source_confidence = Some 0.9,
       r_source = ''business_registry'', r_priority = ''primary''\<rparr>,
      \<lparr>r_fields = [(''corporate_name'', ''Acme LLC'')], r_source_confidence = Some 0.7,
       r_source = ''corporate_database'', r_priority = ''fallback''\<rparr>]"
  let ?differ = "[\<lparr>r_fields = [(''corporate_address'', ''Registered: 1 Main St'')],
       r_source_confidence = Some 0.9,
       r_source = ''business_registry'', r_priority = ''primary''\<rparr>,
      \<lparr>r_fields = [(''corporate_address'', ''Verified: 1 Main St'')],
       r_source_confidence = Some 0.8,
       r_source = ''google_places'', r_priority = ''primary''\<rparr>]"
  have a1: "contributed_fields ?agree = {''corporate_name''}"
    by (simp add: contributed_fields_def meta_keys_def)
  have a2: "contributions ?agree ''corporate_name'' = [''Acme LLC'', ''Acme LLC'']"
    by (simp add: contributions_def)
  have d1: "contributed_fields ?differ = {''corporate_address''}"
    by (simp add: contributed_fields_def meta_keys_def)
  have d2: "contributions ?differ ''corporate_address'' =
      [''Registered: 1 Main St'', ''Verified: 1 Main St'']"
    by (simp add: contributions_def)
  from data_consistency_is_mean [of ?agree] a1 a2
  have "calculate_consistency_score (aggregate ?agree) = 1" by simp
  moreover from data_consistency_is_mean [of ?differ] d1 d2
  have "calculate_consistency_score (aggregate ?differ) \<noteq> 1" by simp
  ultimately show ?thesis by simp
qed

section \<open>Properties of the configuration check\<close>

lemma validate_config_empty_iff:
  "validate_config path_exists config = [] \<longleftrightarrow>
     0 < max_concurrent_requests (processing config) \<and>
     0 < batch_size (processing config) \<and>
     0 \<le> minimum_confidence_threshold (data_quality config) \<and>
     minimum_confidence_threshold (data_quality config) \<le> 1 \<and>
     0 \<le> high_confidence_threshold (data_quality config) \<and>
     high_confidence_threshold (data_quality config) \<le> 1 \<and>
     minimum_confidence_threshold (data_quality config)
       \<le> high_confidence_threshold (data_quality config) \<and>
     path_exists (input_file config)"
  by (auto simp: validate_config_def)

text \<open>
  Claim C9. Constructing the production pipeline validates the settings: when the
  concurrency limit or the batch size is not positive, a confidence threshold lies outside
  [0,1], or the minimum threshold exceeds the high one, the constructor raises
  \<open>ValueError\<close>, and \<open>main\<close> ends with that error whatever the records are, so no record is
  processed. The constructor succeeds exactly when all these settings are valid and the
  input file exists.
\<close>

theorem invalid_settings_rejected:
  "(max_concurrent_requests (processing config) \<le> 0 \<or>
    batch_size (processing config) \<le> 0 \<or>
    minimum_confidence_threshold (data_quality config) < 0 \<or>
    minimum_confidence_threshold (data_quality config) > 1 \<or>
    high_confidence_threshold (data_quality config) < 0 \<or>
    high_confidence_threshold (data_quality config) > 1 \<or>
    minimum_confidence_threshold (data_quality config)
      > high_confidence_threshold (data_quality config)
    \<longrightarrow>
      (\<exists>msg. pipeline_init path_exists config = Inl (ValueError msg) \<and>
             main_production path_exists config enrich records = Inl (ValueError msg))) \<and>
   ((\<exists>p. pipeline_init path_exists config = Inr p) \<longleftrightarrow>
      0 < max_concurrent_requests (processing config) \<and>
      0 < batch_size (processing config) \<and>
      0 \<le> minimum_confidence_threshold (data_quality config) \<and>
      minimum_confidence_threshold (data_quality config) \<le> 1 \<and>
      0 \<le> high_confidence_threshold (data_quality config) \<and>
      high_confidence_threshold (data_quality config) \<le> 1 \<and>
      minimum_confidence_threshold (data_quality config)
        \<le> high_confidence_threshold (data_quality config) \<and>
      path_exists (input_file config))"
proof (intro conjI impI)
  assume bad: "max_concurrent_requests (processing config) \<le> 0 \<or>
    batch_size (processing config) \<le> 0 \<or>
    minimum_confidence_threshold (data_quality config) < 0 \<or>
    minimum_confidence_threshold (data_quality config) > 1 \<or>
    high_confidence_threshold (data_quality config) < 0 \<or>
    high_confidence_threshold (data_quality config) > 1 \<or>
    minimum_confidence_threshold (data_quality config)
      > high_confidence_threshold (data_quality config)"
  then have "validate_config path_exists config \<noteq> []"
    unfolding validate_config_empty_iff by linarith
  then show "\<exists>msg. pipeline_init path_exists config = Inl (ValueError msg) \<and>
             main_production path_exists config enrich records = Inl (ValueError msg)"
    by (simp add: pipeline_init_def main_production_def Let_def)
next
  show "(\<exists>p. pipeline_init path_exists config = Inr p) \<longleftrightarrow>
      0 < max_concurrent_requests (processing config) \<and>
      0 < batch_size (processing config) \<and>
      0 \<le> minimum_confidence_threshold (data_quality config) \<and>
      minimum_confidence_threshold (data_quality config) \<le> 1 \<and>
      0 \<le> high_confidence_threshold (data_quality config) \<and>
      high_confidence_threshold (data_quality config) \<le> 1 \<and>
      minimum_confidence_threshold (data_quality config)
        \<le> high_confidence_threshold (data_quality config) \<and>
      path_exists (input_file config)"
    unfolding validate_config_empty_iff [symmetric]
    by (simp add: pipeline_init_def Let_def)
qed

text \<open>
  The theorem at a configuration whose batch size is 0 (rejected), and at the same
  configuration with batch size 5 (accepted).
\<close>

theorem invalid_settings_rejected_witness:
  "(\<exists>msg. pipeline_init (\<lambda>p. True) bad_config = Inl (ValueError msg) \<and>
      main_production (\<lambda>p. True) bad_config (\<lambda>r. Inr r) [golden_chick] = Inl (ValueError msg)) \<and>
   (\<exists>p. pipeline_init (\<lambda>p. True)
      (bad_config\<lparr>processing := (processing bad_config)\<lparr>batch_size := 5\<rparr>\<rparr>) = Inr p)"
proof -
  have b: "batch_size (processing bad_config) \<le> 0" by (simp add: bad_config_def)
  have g: "0 < max_concurrent_requests (processing (bad_config\<lparr>processing := (processing bad_config)\<lparr>batch_size := 5\<rparr>\<rparr>)) \<and>
      0 < batch_size (processing (bad_config\<lparr>processing := (processing bad_config)\<lparr>batch_size := 5\<rparr>\<rparr>)) \<and>
      0 \<le> minimum_confidence_threshold (data_quality (bad_config\<lparr>processing := (processing bad_config)\<lparr>batch_size := 5\<rparr>\<rparr>)) \<and>
      minimum_confidence_threshold (data_quality (bad_config\<lparr>processing := (processing bad_config)\<lparr>batch_size := 5\<rparr>\<rparr>)) \<le> 1 \<and>
      0 \<le> high_confidence_threshold (data_quality (bad_config\<lparr>processing := (processing bad_config)\<lparr>batch_size := 5\<rparr>\<rparr>)) \<and>
      high_confidence_threshold (data_quality (bad_config\<lparr>processing := (processing bad_config)\<lparr>batch_size := 5\<rparr>\<rparr>)) \<le> 1 \<and>
      minimum_confidence_threshold (data_quality (bad_config\<lparr>processing := (processing bad_config)\<lparr>batch_size := 5\<rparr>\<rparr>))
        \<le> high_confidence_threshold (data_quality (bad_config\<lparr>processing := (processing bad_config)\<lparr>batch_size := 5\<rparr>\<rparr>))"
    by (simp add: bad_config_def)
  from b invalid_settings_rejected [of bad_config "\<lambda>p. True" "\<lambda>r. Inr r" "[golden_chick]"]
  have 1: "\<exists>msg. pipeline_init (\<lambda>p. True) bad_config = Inl (ValueError msg) \<and>
      main_production (\<lambda>p. True) bad_config (\<lambda>r. Inr r) [golden_chick] = Inl (ValueError msg)"
    by blast
  from g invalid_settings_rejected [of "bad_config\<lparr>processing := (processing bad_config)\<lparr>batch_size := 5\<rparr>\<rparr>" "\<lambda>p. True" "\<lambda>r. Inr r" "[golden_chick]"]
  have 2: "\<exists>p. pipeline_init (\<lambda>p. True)
      (bad_config\<lparr>processing := (processing bad_config)\<lparr>batch_size := 5\<rparr>\<rparr>) = Inr p"
    by blast
  from 1 2 show ?thesis by blast
qed

section \<open>Properties of the production merge\<close>

lemma merge_entry_other:
  "merge_entry enriched key v = Inr enriched' \<Longrightarrow> k \<noteq> key \<Longrightarrow> enriched' k = enriched k"
  by (auto simp: merge_entry_def split: option.splits if_splits attr.splits)

lemma merge_entry_unchanged:
  "merge_entry enriched key [] = Inr enriched"
  by (simp add: merge_entry_def split: option.splits)

lemma merge_data_other:
  "merge_enrichment_data enriched data = Inr enriched' \<Longrightarrow> k \<notin> fst ` set data \<Longrightarrow>
   enriched' k = enriched k"
proof (induction data arbitrary: enriched)
  case Nil
  then show ?case by simp
next
  case (Cons a data)
  obtain key v where a: "a = (key, v)" by (cases a)
  from Cons.prems a obtain e1 where e1: "merge_entry enriched key v = Inr e1"
    and rest: "merge_enrichment_data e1 data = Inr enriched'"
    by (auto split: sum.splits)
  have "k \<noteq> key" "k \<notin> fst ` set data" using Cons.prems(2) a by auto
  then show ?case using Cons.IH [OF rest] merge_entry_other [OF e1] by simp
qed

lemma merge_entry_same:
  assumes "merge_entry enriched key v = Inr enriched'"
    and "enriched key = Some cur" and "truthy cur"
  shows "enriched' key =
     (if v \<noteq> [] \<and> (key = ''corporate_address'' \<and> str_in ''Verified:'' v \<or>
                    key = ''corporate_phone'' \<and> (\<exists>c. cur = Str c \<and> length v > length c))
      then Some (Str v) else Some cur)"
  using assms by (auto simp: merge_entry_def split: if_splits attr.splits)

lemma merge_data_same:
  assumes "distinct (map fst data)"
    and "merge_enrichment_data enriched data = Inr enriched'"
    and "enriched key = Some cur" and "truthy cur"
  shows "enriched' key =
     (case map_of data key of
        None \<Rightarrow> Some cur
      | Some v \<Rightarrow>
          if v \<noteq> [] \<and> (key = ''corporate_address'' \<and> str_in ''Verified:'' v \<or>
                       key = ''corporate_phone'' \<and> (\<exists>c. cur = Str c \<and> length v > length c))
          then Some (Str v) else Some cur)"
  using assms
proof (induction data arbitrary: enriched)
  case Nil
  then show ?case by simp
next
  case (Cons a data)
  obtain k v where a: "a = (k, v)" by (cases a)
  from Cons.prems(2) a obtain e1 where e1: "merge_entry enriched k v = Inr e1"
    and rest: "merge_enrichment_data e1 data = Inr enriched'"
    by (auto split: sum.splits)
  have d: "distinct (map fst data)" and nk: "k \<notin> fst ` set data"
    using Cons.prems(1) a by auto
  show ?case
  proof (cases "k = key")
    case True
    then have "enriched' key = e1 key" using merge_data_other [OF rest] nk by simp
    then show ?thesis
      using merge_entry_same [OF e1 [unfolded True] Cons.prems(3,4)] a True by simp
  next
    case False
    then have "e1 key = Some cur" using merge_entry_other [OF e1] Cons.prems(3) by simp
    from Cons.IH [OF d rest this Cons.prems(4)] show ?thesis using a False by simp
  qed
qed

text \<open>
  Claim C10. Let a source's data map (a dict: its keys are distinct) be merged into an
  enriched record without error. A field that held a non-empty value is replaced by the
  incoming value only when that value is non-empty and either the field is
  \<open>corporate_address\<close> and the value contains \<open>Verified:\<close>, or the field is
  \<open>corporate_phone\<close> and the value is strictly longer; then it holds the incoming value,
  and in every other case it keeps the value it had. A field that is absent from the map,
  or empty in it, is left unchanged.
\<close>

theorem merge_keeps_populated_fields:
  "distinct (map fst data) \<and> merge_enrichment_data enriched data = Inr enriched' \<longrightarrow>
     (\<forall>key cur. enriched key = Some cur \<and> truthy cur \<longrightarrow>
        enriched' key =
          (case map_of data key of
             None \<Rightarrow> Some cur
           | Some v \<Rightarrow>
               if v \<noteq> [] \<and>
                  (key = ''corporate_address'' \<and> str_in ''Verified:'' v \<or>
                   key = ''corporate_phone'' \<and> (\<exists>c. cur = Str c \<and> length v > length c))
               then Some (Str v) else Some cur)) \<and>
     (\<forall>key. map_of data key = None \<or> map_of data key = Some [] \<longrightarrow>
        enriched' key = enriched key)"
proof (intro impI conjI allI)
  fix key cur
  assume h: "distinct (map fst data) \<and> merge_enrichment_data enriched data = Inr enriched'"
    and c: "enriched key = Some cur \<and> truthy cur"
  then show "enriched' key =
          (case map_of data key of
             None \<Rightarrow> Some cur
           | Some v \<Rightarrow>
               if v \<noteq> [] \<and>
                  (key = ''corporate_address'' \<and> str_in ''Verified:'' v \<or>
                   key = ''corporate_phone'' \<and> (\<exists>c. cur = Str c \<and> length v > length c))
               then Some (Str v) else Some cur)"
    using merge_data_same [of data enriched enriched' key cur] by simp
next
  fix key
  assume h: "distinct (map fst data) \<and> merge_enrichment_data enriched data = Inr enriched'"
    and c: "map_of data key = None \<or> map_of data key = Some []"
  show "enriched' key = enriched key"
  proof (cases "map_of data key")
    case None
    then have "key \<notin> fst ` set data" by (simp add: map_of_eq_None_iff)
    then show ?thesis using merge_data_other h by blast
  next
    case (Some v)
    with c have v: "v = []" by simp
    show ?thesis using h Some v
    proof (induction data arbitrary: enriched)
      case Nil
      then show ?case by simp
    next
      case (Cons a data)
      obtain k w where a: "a = (k, w)" by (cases a)
      from Cons.prems(1) a obtain e1 where e1: "merge_entry enriched k w = Inr e1"
        and rest: "merge_enrichment_data e1 data = Inr enriched'"
        by (auto split: sum.splits)
      have d: "distinct (map fst data)" and nk: "k \<notin> fst ` set data"
        using Cons.prems(1) a by auto
      show ?case
      proof (cases "k = key")
        case True
        then have "w = []" using Cons.prems(2,3) a by simp
        then have "e1 = enriched" using e1 merge_entry_unchanged by simp
        then show ?thesis using merge_data_other [OF rest] nk True by simp
      next
        case False
        then have m: "map_of data key = Some v" using Cons.prems(2) a by simp
        have "enriched' key = e1 key" using Cons.IH [of e1] d rest m Cons.prems(3) by simp
        then show ?thesis using merge_entry_other [OF e1] False by simp
      qed
    qed
  qed
qed


text \<open>
  The theorem at a record with three populated fields and a map that offers a longer
  phone number, a verified address, another corporate name and an empty profile link.
\<close>

theorem merge_keeps_populated_fields_witness:
  "\<exists>enriched'. merge_enrichment_data example_enriched example_data = Inr enriched' \<and>
     enriched' ''corporate_phone'' = Some (Str ''214-555-0100'') \<and>
     enriched' ''corporate_address'' = Some (Str ''Verified: 123 Main St, Dallas, TX 75001'') \<and>
     enriched' ''corporate_name'' = Some (Str ''Golden Chick Enterprises LLC'') \<and>
     enriched' ''linkedin'' = Some (Str [])"
proof -
  have d: "distinct (map fst example_data)" by (simp add: example_data_def)
  have v: "str_in ''Verified:'' ''Verified: 123 Main St, Dallas, TX 75001''" by code_simp
  have "\<exists>enriched'. merge_enrichment_data example_enriched example_data = Inr enriched'"
    using v by (simp add: example_data_def example_enriched_def merge_entry_def truthy_def)
  then obtain enriched' where m: "merge_enrichment_data example_enriched example_data = Inr enriched'"
    by blast
  from merge_keeps_populated_fields [of example_data example_enriched enriched'] d m
  have A: "\<And>key cur. example_enriched key = Some cur \<Longrightarrow> truthy cur \<Longrightarrow>
        enriched' key =
          (case map_of example_data key of
             None \<Rightarrow> Some cur
           | Some v \<Rightarrow>
               if v \<noteq> [] \<and>
                  (key = ''corporate_address'' \<and> str_in ''Verified:'' v \<or>
                   key = ''corporate_phone'' \<and> (\<exists>c. cur = Str c \<and> length v > length c))
               then Some (Str v) else Some cur)"
    and B: "\<And>key. map_of example_data key = Some [] \<Longrightarrow> enriched' key = example_enriched key"
    by blast+
  have p: "enriched' ''corporate_phone'' = Some (Str ''214-555-0100'')"
    using A [of "''corporate_phone''" "Str ''555-0100''"]
    by (simp add: example_data_def example_enriched_def truthy_def)
  have a: "enriched' ''corporate_address'' = Some (Str ''Verified: 123 Main St, Dallas, TX 75001'')"
    using A [of "''corporate_address''" "Str ''TX Registered: 123 Main St, Dallas, TX 75001''"] v
    by (simp add: example_data_def example_enriched_def truthy_def)
  have n: "enriched' ''corporate_name'' = Some (Str ''Golden Chick Enterprises LLC'')"
    using A [of "''corporate_name''" "Str ''Golden Chick Enterprises LLC''"]
    by (simp add: example_data_def example_enriched_def truthy_def)
  have l: "enriched' ''linkedin'' = Some (Str [])"
    using B [of "''linkedin''"] by (simp add: example_data_def example_enriched_def)
  from m p a n l show ?thesis by blast
qed

section \<open>Properties of the batch loops\<close>

lemma process_records_agentic_map:
  "process_records_agentic ainvoke records = map (process_record_agentic ainvoke) records"
proof -
  have "fold (\<lambda>record results. results @ [process_record_agentic ainvoke record]) records acc =
        acc @ map (process_record_agentic ainvoke) records" for acc
    by (induction records arbitrary: acc) simp_all
  then show ?thesis by (simp add: process_records_agentic_def)
qed

lemma process_batch_eq:
  "process_batch enrich batch (acc, ok, failed) =
     (acc @ enriched_of enrich batch,
      ok + length (enriched_of enrich batch),
      failed + length (failures_of enrich batch))"
  by (induction batch arbitrary: acc ok failed)
     (auto simp: enriched_of_def failures_of_def split: sum.splits)

lemma concat_batches: "0 < n \<Longrightarrow> concat (batches n xs) = xs"
proof (induction n xs rule: batches.induct)
  case (1 n xs)
  show ?case
  proof (cases "xs = []")
    case True
    then show ?thesis by (subst batches.simps) simp
  next
    case False
    with 1 have "concat (batches n (drop n xs)) = drop n xs" by simp
    with False 1(2) show ?thesis by (subst batches.simps) simp
  qed
qed

lemma fold_process_batch:
  "fold (process_batch enrich) bs (acc, ok, failed) =
     (acc @ enriched_of enrich (concat bs),
      ok + length (enriched_of enrich (concat bs)),
      failed + length (failures_of enrich (concat bs)))"
proof (induction bs arbitrary: acc ok failed)
  case Nil
  then show ?case by (simp add: enriched_of_def failures_of_def)
next
  case (Cons b bs)
  show ?case
    by (simp add: process_batch_eq Cons.IH) (simp add: enriched_of_def failures_of_def)
qed

lemma enriched_failures_length:
  "length (enriched_of enrich records) + length (failures_of enrich records) = length records"
  by (induction records) (auto simp: enriched_of_def failures_of_def split: sum.splits)

lemma process_records_eq:
  assumes "0 < batch_size (processing (pl_config p))"
  shows "process_records enrich p records =
     Inr (enriched_of enrich (sampled p records),
          p\<lparr>successful_enrichments :=
               successful_enrichments p + length (enriched_of enrich (sampled p records)),
            failed_enrichments :=
               failed_enrichments p + length (failures_of enrich (sampled p records))\<rparr>)"
proof -
  have n: "0 < nat (batch_size (processing (pl_config p)))" using assms by simp
  show ?thesis
    using assms
    by (simp add: process_records_def Let_def fold_process_batch concat_batches [OF n]
        sampled_def split: option.splits)
qed

text \<open>
  Claim C1, as the code has it. The agentic batch loop gives one result per input record,
  in the order of the input; a record whose workflow raises gives the degraded result (the
  record's own fields, confidence 0, strategy \<open>Failed\<close>, reasoning \<open>Error:\<close> and the cause).
  The production batch loop, for a positive batch size, first cuts the input down to the
  sample size when one is set, then returns the enriched records of exactly those records
  whose enrichment did not raise, in order; the others are counted in
  \<open>failed_enrichments\<close>, so that the results and the failures together are as many as the
  sampled records.
\<close>

theorem one_output_per_record:
  "process_records_agentic ainvoke records = map (process_record_agentic ainvoke) records \<and>
   length (process_records_agentic ainvoke records) = length records \<and>
   (\<forall>record e. ainvoke (initial_state record) = Inl e \<longrightarrow>
      process_record_agentic ainvoke record =
        \<lparr>ar_record = record, ar_enriched = [], ar_agent_confidence = 0,
         ar_enrichment_strategy_used = ''Failed'', ar_data_sources_consulted = 0,
         ar_agent_reasoning = ''Error: '' @ error_message e, ar_quality_score = 0,
         ar_url_sources = []\<rparr>) \<and>
   (0 < batch_size (processing (pl_config p)) \<longrightarrow>
      (\<exists>p'. process_records enrich p records' = Inr (enriched_of enrich (sampled p records'), p') \<and>
            failed_enrichments p' =
              failed_enrichments p + length (failures_of enrich (sampled p records')) \<and>
            length (enriched_of enrich (sampled p records')) +
              length (failures_of enrich (sampled p records')) = length (sampled p records')))"
  by (simp add: process_records_agentic_map process_record_agentic_def failed_result_def
      process_records_eq enriched_failures_length)


text \<open>
  The theorem at a batch of two records: in the agentic loop with a source that raises
  for the first record, in the production loop with an enrichment that raises for the
  second.
\<close>

theorem one_output_per_record_witness:
  "length (process_records_agentic (run_workflow timing_out_sources) [golden_chick, smith_john]) = 2 \<and>
   ar_record (process_record_agentic (run_workflow timing_out_sources) golden_chick) = golden_chick \<and>
   ar_agent_confidence (process_record_agentic (run_workflow timing_out_sources) golden_chick) = 0 \<and>
   ar_agent_reasoning (process_record_agentic (run_workflow timing_out_sources) golden_chick)
     = ''Error: source timed out'' \<and>
   (\<exists>p'. process_records failing_enrich default_pipeline [golden_chick, smith_john] =
            Inr ([new_enriched [] golden_chick], p') \<and>
         failed_enrichments p' = 1)"
proof -
  have a: "run_workflow timing_out_sources (initial_state golden_chick) = Inl (Raised ''source timed out'')"
    by code_simp
  have b: "0 < batch_size (processing (pl_config default_pipeline))"
    by (simp add: default_pipeline_def default_config_def)
  have s: "sampled default_pipeline [golden_chick, smith_john] = [golden_chick, smith_john]"
    by (simp add: sampled_def default_pipeline_def default_config_def)
  have e: "enriched_of failing_enrich [golden_chick, smith_john] = [new_enriched [] golden_chick]"
    by (simp add: enriched_of_def failing_enrich_def golden_chick_def smith_john_def)
  have f: "failures_of failing_enrich [golden_chick, smith_john] = [smith_john]"
    by (simp add: failures_of_def failing_enrich_def golden_chick_def smith_john_def)
  have z: "failed_enrichments default_pipeline = 0" by (simp add: default_pipeline_def)
  note t = one_output_per_record [of "run_workflow timing_out_sources" "[golden_chick, smith_john]"
      default_pipeline failing_enrich "[golden_chick, smith_john]"]
  from t have 1: "length (process_records_agentic (run_workflow timing_out_sources)
      [golden_chick, smith_john]) = 2" by simp
  from t a have 2: "process_record_agentic (run_workflow timing_out_sources) golden_chick =
        \<lparr>ar_record = golden_chick, ar_enriched = [], ar_agent_confidence = 0,
         ar_enrichment_strategy_used = ''Failed'', ar_data_sources_consulted = 0,
         ar_agent_reasoning = ''Error: '' @ error_message (Raised ''source timed out''),
         ar_quality_score = 0, ar_url_sources = []\<rparr>" by blast
  from t b have "\<exists>p'. process_records failing_enrich default_pipeline [golden_chick, smith_john] =
       Inr (enriched_of failing_enrich (sampled default_pipeline [golden_chick, smith_john]), p') \<and>
       failed_enrichments p' = failed_enrichments default_pipeline +
         length (failures_of failing_enrich (sampled default_pipeline [golden_chick, smith_john]))"
    by blast
  then have 3: "\<exists>p'. process_records failing_enrich default_pipeline [golden_chick, smith_john] =
            Inr ([new_enriched [] golden_chick], p') \<and> failed_enrichments p' = 1"
    by (simp add: s e f z)
  from 1 2 3 show ?thesis by (simp add: error_message_def)
qed

text \<open>
  Claim C1 as stated fails in the production loop: of two records, one of which fails,
  one result comes back (from \<open>process_records\<close> and from \<open>main\<close>), and with a sample
  size of 1 two good records give one result.
\<close>

theorem one_output_per_record_counterexample:
  "(case process_records failing_enrich default_pipeline [golden_chick, smith_john] of
      Inl e \<Rightarrow> False
    | Inr (results, p') \<Rightarrow> length results = 1 \<and> failed_enrichments p' = 1) \<and>
   (case main_production (\<lambda>path. True) default_config failing_enrich [golden_chick, smith_john] of
      Inl e \<Rightarrow> False
    | Inr (results, p') \<Rightarrow> length results = 1 \<and> failed_enrichments p' = 1) \<and>
   (case process_records (\<lambda>record. Inr (new_enriched [] record))
           (default_pipeline\<lparr>pl_config := default_config\<lparr>processing :=
              (processing default_config)\<lparr>sample_size := Some 1\<rparr>\<rparr>\<rparr>)
           [golden_chick, smith_john] of
      Inl e \<Rightarrow> False
    | Inr (results, p') \<Rightarrow> length results = 1 \<and> failed_enrichments p' = 0)"
  by code_simp

section \<open>Properties of source failures\<close>

lemma await_task_fails:
  "0 < attempt \<or> outcome = Inl e \<Longrightarrow> \<exists>e'. await_task outcome attempt = Inl e'"
  by (auto simp: await_task_def)

lemma retry_loop_all_fail:
  assumes "0 < a \<or> (\<exists>e. outcome = Inl e)" and "int (a + k) = retries - 1"
  shows "retry_loop outcome retries delay a (Suc k) =
     (None, failed_attempts delay a (a + k) @ [Awaited (a + k), Warned, ErrorLogged])"
  using assms
proof (induction k arbitrary: a)
  case 0
  then obtain e' where "await_task outcome a = Inl e'" using await_task_fails by blast
  with 0 show ?case by (simp add: failed_attempts_def)
next
  case (Suc k)
  then obtain e' where f: "await_task outcome a = Inl e'" using await_task_fails by blast
  have "retry_loop outcome retries delay (Suc a) (Suc k) =
     (None, failed_attempts delay (Suc a) (Suc a + k) @ [Awaited (Suc a + k), Warned, ErrorLogged])"
    using Suc.prems(2) by (intro Suc.IH) simp_all
  moreover have "int a < retries - 1" using Suc.prems(2) by simp
  moreover have "failed_attempts delay a (a + Suc k) =
      [Awaited a, Warned, Slept delay] @ failed_attempts delay (Suc a) (Suc a + k)"
    by (simp add: failed_attempts_def upt_rec [of a])
  ultimately show ?case using f by simp
qed

lemma retry_loop_success:
  "retry_loop (Inr r) retries delay 0 (Suc k) = (if r \<noteq> [] then Some r else None, [Awaited 0])"
  by (simp add: await_task_def)

lemma retry_loop_exhausted:
  assumes "0 < retries"
  shows "retry_loop (Inl e) retries delay 0 (nat retries) =
     (None, failed_attempts delay 0 (nat retries - 1) @
            [Awaited (nat retries - 1), Warned, ErrorLogged])"
proof -
  from assms obtain k where k: "nat retries = Suc k" by (cases "nat retries") auto
  then have "int (0 + k) = retries - 1" by simp
  from retry_loop_all_fail [OF _ this, of "Inl e" delay] show ?thesis using k by simp
qed

lemma retry_loop_result:
  assumes "0 < retries"
  shows "fst (retry_loop t retries delay 0 (nat retries)) =
     (case t of Inl e \<Rightarrow> None | Inr r \<Rightarrow> if r \<noteq> [] then Some r else None)"
proof (cases t)
  case (Inl e)
  then show ?thesis using retry_loop_exhausted [OF assms] by simp
next
  case (Inr r)
  from assms obtain k where k: "nat retries = Suc k" by (cases "nat retries") auto
  have "retry_loop (Inr r) retries delay 0 (nat retries) =
      (if r \<noteq> [] then Some r else None, [Awaited 0])"
    unfolding k by (rule retry_loop_success)
  then show ?thesis using Inr by simp
qed

lemma execute_enrichment_tasks_results:
  assumes "0 < max_retries cfg"
  shows "fst (execute_enrichment_tasks cfg tasks (results, used, events)) =
           results @ task_results tasks"
    and "fst (snd (execute_enrichment_tasks cfg tasks (results, used, events))) =
           used + length (task_results tasks)"
proof (induction tasks arbitrary: results used events)
  case Nil
  case 1 show ?case by (simp add: task_results_def)
  case 2 show ?case by (simp add: task_results_def)
next
  case (Cons t tasks)
  obtain r evs where rl:
    "retry_loop t (max_retries cfg) (retry_delay_seconds cfg) 0 (nat (max_retries cfg)) = (r, evs)"
    by (cases "retry_loop t (max_retries cfg) (retry_delay_seconds cfg) 0 (nat (max_retries cfg))")
  have r: "r = (case t of Inl e \<Rightarrow> None | Inr d \<Rightarrow> if d \<noteq> [] then Some d else None)"
    using retry_loop_result [OF assms, of t "retry_delay_seconds cfg"] rl by simp
  case 1 show ?case using rl r Cons.IH(1)
    by (auto simp: task_results_def split: sum.splits)
  case 2 show ?case using rl r Cons.IH(2)
    by (auto simp: task_results_def split: sum.splits)
qed

lemma run_sources_raises:
  assumes "\<forall>s \<in> set pre. \<exists>r. call s = Inr r" and "call source = Inl err"
  shows "run_sources call priority dflt (pre @ source # post) st = Inl err"
  using assms
proof (induction pre arbitrary: st)
  case Nil
  then show ?case by simp
next
  case (Cons s pre)
  then obtain r where "call s = Inr r" by auto
  with Cons show ?case by (simp add: Let_def)
qed

text \<open>
  Claim C8, as the code has it. In the production enricher, with a positive number of
  retries, a task whose first await raises is awaited \<open>max_retries\<close> times in all (the later
  awaits are of the same coroutine object), with a sleep of \<open>retry_delay_seconds\<close> after
  each attempt but the last, which is followed by the error log; nothing is raised, and
  the results of the run are the non-empty data of the tasks that succeeded, so the other
  sources are still used. In the agentic workflow a source is called once: when a primary
  source raises, the enrichment node raises the same exception.
\<close>

theorem source_failure_handling:
  "(0 < max_retries cfg \<longrightarrow>
      retry_loop (Inl e) (max_retries cfg) (retry_delay_seconds cfg) 0 (nat (max_retries cfg)) =
        (None,
         concat (map (\<lambda>i. [Awaited i, Warned, Slept (retry_delay_seconds cfg)])
                     [0..<nat (max_retries cfg) - 1]) @
         [Awaited (nat (max_retries cfg) - 1), Warned, ErrorLogged]) \<and>
      fst (execute_enrichment_tasks cfg tasks ([], 0, [])) = task_results tasks) \<and>
   (st_enrichment_strategy st = Some strategy \<and>
    primary_sources strategy = pre @ source # post \<and>
    (\<forall>s \<in> set pre. \<exists>r. call s (st_record st) ''business'' = Inr r) \<and>
    call source (st_record st) ''business'' = Inl err
    \<longrightarrow> execute_business_enrichment call st = Inl err)"
proof (intro conjI impI)
  assume "0 < max_retries cfg"
  then show "retry_loop (Inl e) (max_retries cfg) (retry_delay_seconds cfg) 0 (nat (max_retries cfg)) =
        (None,
         concat (map (\<lambda>i. [Awaited i, Warned, Slept (retry_delay_seconds cfg)])
                     [0..<nat (max_retries cfg) - 1]) @
         [Awaited (nat (max_retries cfg) - 1), Warned, ErrorLogged])"
    using retry_loop_exhausted [of "max_retries cfg" e "retry_delay_seconds cfg"]
    by (simp add: failed_attempts_def)
next
  assume "0 < max_retries cfg"
  then show "fst (execute_enrichment_tasks cfg tasks ([], 0, [])) = task_results tasks"
    using execute_enrichment_tasks_results(1) [of cfg tasks "[]" 0 "[]"] by simp
next
  assume h: "st_enrichment_strategy st = Some strategy \<and>
    primary_sources strategy = pre @ source # post \<and>
    (\<forall>s \<in> set pre. \<exists>r. call s (st_record st) ''business'' = Inr r) \<and>
    call source (st_record st) ''business'' = Inl err"
  then have "run_sources (\<lambda>source. call source (st_record st) ''business'') ''primary'' 0.7
      (pre @ source # post) st = Inl err"
    by (intro run_sources_raises) simp_all
  with h show "execute_business_enrichment call st = Inl err"
    by (simp add: execute_business_enrichment_def)
qed


text \<open>
  The theorem at three retries with a delay of one second, at a run of a failing and a
  succeeding task, and at the workflow whose second primary source raises.
\<close>

theorem source_failure_handling_witness:
  "retry_loop (Inl (Raised ''timeout'')) 3 1 0 3 =
     (None, [Awaited 0, Warned, Slept 1, Awaited 1, Warned, Slept 1,
             Awaited 2, Warned, ErrorLogged]) \<and>
   fst (execute_enrichment_tasks (processing default_config)
          [Inl (Raised ''timeout''), Inr [(''corporate_phone'', ''214-555-0100'')]]
          ([], 0, [])) = [[(''corporate_phone'', ''214-555-0100'')]] \<and>
   execute_business_enrichment (src_business timing_out_sources) (planned_state golden_chick)
     = Inl (Raised ''source timed out'')"
proof -
  have m: "max_retries (processing default_config) = 3"
    and d: "retry_delay_seconds (processing default_config) = 1"
    by (simp_all add: default_config_def)
  have s: "st_enrichment_strategy (planned_state golden_chick) =
      Some \<lparr>primary_sources = [''business_registry'', ''google_places''],
            fallback_sources = [''corporate_database'', ''linkedin_company''],
            confidence_threshold = 0.8, max_sources = 4,
            s_reasoning = ''Texas business registry provides high-quality data''\<rparr>"
    by code_simp
  have p: "\<forall>s \<in> set [''business_registry''].
      \<exists>r. src_business timing_out_sources s (st_record (planned_state golden_chick)) ''business'' = Inr r"
    by (simp add: timing_out_sources_def)
  have q: "src_business timing_out_sources ''google_places''
      (st_record (planned_state golden_chick)) ''business'' = Inl (Raised ''source timed out'')"
    by (simp add: timing_out_sources_def)
  note t = source_failure_handling [of "processing default_config" "Raised ''timeout''"
      "[Inl (Raised ''timeout''), Inr [(''corporate_phone'', ''214-555-0100'')]]"
      "planned_state golden_chick"
      "\<lparr>primary_sources = [''business_registry'', ''google_places''],
            fallback_sources = [''corporate_database'', ''linkedin_company''],
            confidence_threshold = 0.8, max_sources = 4,
            s_reasoning = ''Texas business registry provides high-quality data''\<rparr>"
      "[''business_registry'']" "''google_places''" "[]" "src_business timing_out_sources"
      "Raised ''source timed out''"]
  have u: "[0..<nat 3 - 1] = [0, 1]" by (simp add: upt_rec)
  from t have 1: "retry_loop (Inl (Raised ''timeout'')) 3 1 0 3 =
     (None, [Awaited 0, Warned, Slept 1, Awaited 1, Warned, Slept 1,
             Awaited 2, Warned, ErrorLogged])"
    unfolding m d u by simp
  from t have 2: "fst (execute_enrichment_tasks (processing default_config)
          [Inl (Raised ''timeout''), Inr [(''corporate_phone'', ''214-555-0100'')]]
          ([], 0, [])) = [[(''corporate_phone'', ''214-555-0100'')]]"
    unfolding m by (simp add: task_results_def)
  from t s p q have 3: "execute_business_enrichment (src_business timing_out_sources)
      (planned_state golden_chick) = Inl (Raised ''source timed out'')"
    by simp
  from 1 2 3 show ?thesis by simp
qed

text \<open>
  Claim C8 as stated fails in the agentic workflow: when the places lookup raises, the
  enrichment node and the whole workflow of the record raise, and the record's result is
  the degraded one, without the fields the registry had already returned.
\<close>

theorem source_failure_handling_counterexample:
  "execute_business_enrichment (src_business timing_out_sources) (planned_state golden_chick)
     = Inl (Raised ''source timed out'') \<and>
   run_workflow timing_out_sources (initial_state golden_chick) = Inl (Raised ''source timed out'') \<and>
   ar_enriched (process_record_agentic (run_workflow timing_out_sources) golden_chick) = [] \<and>
   ar_data_sources_consulted (process_record_agentic (run_workflow timing_out_sources) golden_chick) = 0 \<and>
   fst (call_enrichment_source ''business_registry'' golden_chick ''business'') \<noteq> []"
  by code_simp

section \<open>Properties of the conflict resolution\<close>

lemma apply_resolved_idem:
  "apply_resolved rd (apply_resolved rd r) = apply_resolved rd r"
proof -
  define g :: "string \<times> string \<Rightarrow> string \<times> string"
    where "g = (\<lambda>(field, v). case map_of rd field of
                            Some resolved_value \<Rightarrow> (field, resolved_value)
                          | None \<Rightarrow> (field, v))"
  have gg: "g (g x) = g x" for x by (cases x) (simp add: g_def split: option.splits)
  have m: "map g (map g fs) = map g fs" for fs by (induction fs) (simp_all add: gg)
  have a: "apply_resolved rd r = r\<lparr>r_fields := map g (r_fields r)\<rparr>" for r
    by (simp add: apply_resolved_def g_def)
  show ?thesis by (simp add: a m del: map_map)
qed

lemma resolve_data_conflicts_idem:
  assumes "resolve_data_conflicts st = Inr st'"
  shows "resolve_data_conflicts st' = Inr st'"
proof -
  from assms obtain rd where rd: "resolve_all (st_conflicts st) = Inr rd"
    and st': "st' = st\<lparr>st_enrichment_results :=
                     map (apply_resolved rd) (st_enrichment_results st)\<rparr>"
    by (auto simp: resolve_data_conflicts_def split: sum.splits)
  have "st_conflicts st' = st_conflicts st" by (simp add: st')
  then show ?thesis
    by (simp add: resolve_data_conflicts_def rd st' apply_resolved_idem)
qed

lemma filter_singleton_perm:
  assumes "mset ys = mset xs" and "filter P xs = [v]"
  shows "filter P ys = [v]"
proof -
  have "mset (filter P ys) = mset (filter P xs)"
    using assms(1) by (simp add: mset_filter)
  then have "mset (filter P ys) = {#v#}" using assms(2) by simp
  then show ?thesis unfolding mset_single_iff .
qed

lemma resolve_conflict_verified:
  assumes "''business_registry'' \<notin> set (cf_sources c)"
    and "filter (str_in ''Verified:'') (cf_values c) = [v]"
  shows "resolve_conflict c = Inr v"
proof -
  have "v \<in> set (filter (str_in ''Verified:'') (cf_values c))" using assms(2) by simp
  then have "list_ex (str_in ''Verified:'') (cf_values c)" by (auto simp: list_ex_iff)
  then show ?thesis using assms by (simp add: resolve_conflict_def Let_def)
qed

text \<open>
  Claim C7, as the code has it. Resolving the conflicts of a state that has already been
  resolved changes nothing (the conflict set is kept, the same winners are written again).
  The winner of a conflict depends on the order of its candidates in general; it does not
  when no contributing source is the business registry and exactly one candidate carries
  the marker \<open>Verified:\<close>: then that candidate wins, however the candidates and the source
  labels are permuted.
\<close>

theorem resolution_deterministic:
  "(resolve_data_conflicts st = Inr st' \<longrightarrow> resolve_data_conflicts st' = Inr st') \<and>
   (mset (cf_values c') = mset (cf_values c) \<and> mset (cf_sources c') = mset (cf_sources c) \<and>
    ''business_registry'' \<notin> set (cf_sources c) \<and>
    filter (str_in ''Verified:'') (cf_values c) = [v]
    \<longrightarrow> resolve_conflict c = Inr v \<and> resolve_conflict c' = Inr v)"
proof (intro conjI impI)
  assume "resolve_data_conflicts st = Inr st'"
  then show "resolve_data_conflicts st' = Inr st'" by (rule resolve_data_conflicts_idem)
next
  assume h: "mset (cf_values c') = mset (cf_values c) \<and> mset (cf_sources c') = mset (cf_sources c) \<and>
    ''business_registry'' \<notin> set (cf_sources c) \<and>
    filter (str_in ''Verified:'') (cf_values c) = [v]"
  then have vs: "mset (cf_values c') = mset (cf_values c)"
    and ss: "mset (cf_sources c') = mset (cf_sources c)"
    and nr: "''business_registry'' \<notin> set (cf_sources c)"
    and f: "filter (str_in ''Verified:'') (cf_values c) = [v]"
    by blast+
  show "resolve_conflict c = Inr v" using nr f by (rule resolve_conflict_verified)
  have "set (cf_sources c') = set (cf_sources c)" using ss by (rule mset_eq_setD)
  then have nr': "''business_registry'' \<notin> set (cf_sources c')" using nr by blast
  have f': "filter (str_in ''Verified:'') (cf_values c') = [v]"
    using vs f by (rule filter_singleton_perm)
  show "resolve_conflict c' = Inr v" using nr' f' by (rule resolve_conflict_verified)
qed

text \<open>
  The theorem at a state with one conflict between two fallback sources, and at the two
  orders of that conflict's candidates.
\<close>

theorem resolution_deterministic_witness:
  "(\<exists>st'. resolve_data_conflicts conflicted_state = Inr st' \<and>
          resolve_data_conflicts st' = Inr st') \<and>
   resolve_conflict
     \<lparr>cf_values = [''Verified: Golden Chick'', ''Golden Chick Enterprises LLC''],
      cf_sources = [''corporate_database'', ''linkedin_company'']\<rparr> = Inr ''Verified: Golden Chick'' \<and>
   resolve_conflict
     \<lparr>cf_values = [''Golden Chick Enterprises LLC'', ''Verified: Golden Chick''],
      cf_sources = [''linkedin_company'', ''corporate_database'']\<rparr> = Inr ''Verified: Golden Chick''"
proof -
  let ?c = "\<lparr>cf_values = [''Verified: Golden Chick'', ''Golden Chick Enterprises LLC''],
      cf_sources = [''corporate_database'', ''linkedin_company'']\<rparr>"
  let ?c' = "\<lparr>cf_values = [''Golden Chick Enterprises LLC'', ''Verified: Golden Chick''],
      cf_sources = [''linkedin_company'', ''corporate_database'']\<rparr>"
  have f: "filter (str_in ''Verified:'') (cf_values ?c) = [''Verified: Golden Chick'']"
    by code_simp
  have p: "mset (cf_values ?c') = mset (cf_values ?c) \<and> mset (cf_sources ?c') = mset (cf_sources ?c) \<and>
    ''business_registry'' \<notin> set (cf_sources ?c)"
    by simp
  have "case resolve_data_conflicts conflicted_state of Inl e \<Rightarrow> False | Inr s \<Rightarrow> True"
    by code_simp
  then have "\<exists>st'. resolve_data_conflicts conflicted_state = Inr st'"
    by (cases "resolve_data_conflicts conflicted_state") simp_all
  then obtain st' where s: "resolve_data_conflicts conflicted_state = Inr st'" by blast
  from resolution_deterministic [of conflicted_state st' ?c' ?c "''Verified: Golden Chick''"] s f p
  show ?thesis by blast
qed

text \<open>
  Claim C7 as stated fails: permuting two candidates together with their source labels
  changes the winner, both when the candidates are equally long (the first one wins) and
  when the second one is longer (the first one wins again; the longest wins only when it
  comes first or the first is longer than the second).
\<close>

theorem resolution_deterministic_counterexample:
  "resolve_conflict \<lparr>cf_values = [''Golden Chick LLC'', ''GOLDEN CHICK LLC''],
                     cf_sources = [''corporate_database'', ''linkedin_company'']\<rparr>
     = Inr ''Golden Chick LLC'' \<and>
   resolve_conflict \<lparr>cf_values = [''GOLDEN CHICK LLC'', ''Golden Chick LLC''],
                     cf_sources = [''linkedin_company'', ''corporate_database'']\<rparr>
     = Inr ''GOLDEN CHICK LLC'' \<and>
   resolve_conflict \<lparr>cf_values = [''Golden Chick'', ''Golden Chick Enterprises LLC''],
                     cf_sources = [''corporate_database'', ''linkedin_company'']\<rparr>
     = Inr ''Golden Chick'' \<and>
   resolve_conflict \<lparr>cf_values = [''Golden Chick Enterprises LLC'', ''Golden Chick''],
                     cf_sources = [''linkedin_company'', ''corporate_database'']\<rparr>
     = Inr ''Golden Chick Enterprises LLC''"
  by code_simp

section \<open>Properties of the registry precedence\<close>

lemma set_iteration_remdups: "set_iteration remdups"
  by (simp add: set_iteration_def)

lemma set_iteration_rev_remdups: "set_iteration (\<lambda>vs. rev (remdups vs))"
  by (simp add: set_iteration_def)

text \<open>
  Claim C2 at the record \<open>golden_chick\<close>, for the resolver run on what the validation
  node returns for the state the enrichment node returns. The registry and the places
  lookup disagree on \<open>corporate_address\<close>; the registry contributed the \<open>Registered:\<close>
  value. The resolver reads the candidates at the registry's position in the list of
  sources, but the candidates are the distinct values in the iteration order of a set.
  Under the one order of the two values the resolved value is the registry's, under the
  other it is the value of the places lookup.
\<close>

theorem registry_value_depends_on_set_order:
  "set_iteration remdups \<and> set_iteration (\<lambda>vs. rev (remdups vs)) \<and>
   map r_source (st_enrichment_results (after_enrichment golden_chick))
     = [''business_registry'', ''google_places''] \<and>
   map_of (fst (call_enrichment_source ''business_registry'' golden_chick ''business''))
     ''corporate_address'' = Some ''Registered: 123 Main St, Dallas, TX 75001'' \<and>
   resolved_fields remdups (after_enrichment golden_chick)
     = Inr [(''corporate_address'', ''Registered: 123 Main St, Dallas, TX 75001'')] \<and>
   resolved_fields (\<lambda>vs. rev (remdups vs)) (after_enrichment golden_chick)
     = Inr [(''corporate_address'', ''Verified: 123 Main St, Dallas, TX 75001'')]"
proof -
  have "map r_source (st_enrichment_results (after_enrichment golden_chick))
     = [''business_registry'', ''google_places'']"
    by code_simp
  moreover have "map_of (fst (call_enrichment_source ''business_registry'' golden_chick ''business''))
     ''corporate_address'' = Some ''Registered: 123 Main St, Dallas, TX 75001''"
    by code_simp
  moreover have "resolved_fields remdups (after_enrichment golden_chick)
     = Inr [(''corporate_address'', ''Registered: 123 Main St, Dallas, TX 75001'')]"
    by code_simp
  moreover have "resolved_fields (\<lambda>vs. rev (remdups vs)) (after_enrichment golden_chick)
     = Inr [(''corporate_address'', ''Verified: 123 Main St, Dallas, TX 75001'')]"
    by code_simp
  ultimately show ?thesis
    using set_iteration_remdups set_iteration_rev_remdups by simp
qed

text \<open>
  In a run of the compiled graph the resolver is not reached, as the conflicts do not
  pass the state schema: the record keeps, for each field, the first value contributed,
  here the registry's, under either order.
\<close>

lemma workflow_keeps_first_contribution:
  "enriched_field (simulated_sources remdups) golden_chick ''corporate_address''
     = Some ''Registered: 123 Main St, Dallas, TX 75001''"
  "enriched_field (simulated_sources (\<lambda>vs. rev (remdups vs))) golden_chick ''corporate_address''
     = Some ''Registered: 123 Main St, Dallas, TX 75001''"
  by code_simp+

section \<open>Properties of the two-phase fan-out\<close>

text \<open>
  What the two nodes call, whatever the sources return (over exact arithmetic: the float
  mean of the code can differ from \<open>avg_confidence\<close> in the last place). The individual
  node has no fallback phase.
\<close>

lemma run_sources_invocations:
  "run_sources call priority dflt srcs st = Inr st' \<Longrightarrow>
   st_invocations st' = st_invocations st @ map (Pair priority) srcs"
proof (induction srcs arbitrary: st)
  case Nil
  then show ?case by simp
next
  case (Cons s srcs)
  then obtain r where r: "call s = Inr r" by (cases "call s") simp_all
  with Cons.prems Cons.IH show ?case
    by (cases "truthy_result r") (fastforce simp: Let_def)+
qed

lemma individual_never_invokes_fallback:
  assumes "execute_individual_enrichment call st = Inr st'"
    and "st_enrichment_strategy st = Some strategy"
  shows "st_invocations st' =
    st_invocations st @ map (Pair ''primary'') (primary_sources strategy)"
  using assms
  by (auto simp: execute_individual_enrichment_def split: prod.splits
      dest: run_sources_invocations)

lemma business_fallback_iff:
  assumes "execute_business_enrichment call st = Inr st'"
    and "st_enrichment_strategy st = Some strategy"
  shows "\<exists>st1. run_sources (\<lambda>source. call source (st_record st) ''business'') ''primary'' 0.7
                 (primary_sources strategy) st = Inr st1 \<and>
          st_invocations st' =
            st_invocations st1 @
            (if avg_confidence (st_confidence_scores st1) < confidence_threshold strategy
             then map (Pair ''fallback'') (fallback_sources strategy) else [])"
  using assms
  by (auto simp: execute_business_enrichment_def split: sum.splits if_splits
      dest: run_sources_invocations)

text \<open>
  The state the planner leaves for a record, and what the node chosen by the router does
  on it with the repository's sources.
\<close>

lemma workflow_routes_planned_state:
  "run_workflow env (initial_state record) =
     bind (route_enrichment env (planned_state record)) (\<lambda>st3.
     bind (validate_and_score_results (src_set_to_list env) st3) (\<lambda>st4.
     bind (if st_conflicts (keep_schema st4) \<noteq> []
           then resolve_data_conflicts (keep_schema st4) else Inr (keep_schema st4))
       finalize_enrichment_result))"
proof -
  have "plan_enrichment_strategy st \<noteq> Inl e" if "st_entity_classification st \<noteq> None" for st e
    using that by (auto simp: plan_enrichment_strategy_def Let_def)
  then obtain st2 where p: "plan_enrichment_strategy
      ((initial_state record)\<lparr>st_entity_classification :=
          Some (classify_entity_node (franchisee (st_record (initial_state record))))\<rparr>) = Inr st2"
    by (metis (no_types, lifting) enrichment_state.select_convs(2) enrichment_state.surjective
        enrichment_state.update_convs(2) option.distinct(1) sum.exhaust)
  have "planned_state record = st2"
    by (simp add: planned_state_def bind_def classify_node_def p)
  then show ?thesis
    by (simp add: run_workflow_def bind_def classify_node_def p)
qed









section \<open>Properties of the scores\<close>

lemma round_half_even_bounds:
  assumes "real_of_int a \<le> y" and "y \<le> real_of_int b"
  shows "a \<le> round_half_even y" and "round_half_even y \<le> b"
proof -
  have f: "a \<le> \<lfloor>y\<rfloor>" using assms(1) by (simp add: le_floor_iff)
  then show "a \<le> round_half_even y" by (simp add: round_half_even_def Let_def)
  show "round_half_even y \<le> b"
  proof (cases "y = real_of_int b")
    case True
    then show ?thesis by (simp add: round_half_even_def Let_def)
  next
    case False
    then have "y < real_of_int b" using assms(2) by simp
    then have "\<lfloor>y\<rfloor> < b" by (simp add: floor_less_iff)
    then show ?thesis by (simp add: round_half_even_def Let_def)
  qed
qed

lemma py_round3_bounds:
  assumes "0 \<le> x" and "x \<le> 1"
  shows "0 \<le> py_round3 x" and "py_round3 x \<le> 1"
proof -
  have "real_of_int 0 \<le> x * 1000" "x * 1000 \<le> real_of_int 1000" using assms by simp_all
  then have "0 \<le> round_half_even (x * 1000)" "round_half_even (x * 1000) \<le> 1000"
    by (rule round_half_even_bounds)+
  then show "0 \<le> py_round3 x" and "py_round3 x \<le> 1"
    by (simp_all add: py_round3_def)
qed

lemma data_quality_score_bounds:
  "0 \<le> calculate_data_quality_score enriched" "calculate_data_quality_score enriched \<le> 1"
proof -
  have "fold (\<lambda>penalty quality_score. quality_score - penalty) (quality_penalties enriched) 1
        \<le> (1::real)"
    by (simp add: quality_penalties_def Let_def)
  then have "max 0 (fold (\<lambda>penalty quality_score. quality_score - penalty)
      (quality_penalties enriched) 1) \<le> (1::real)" by simp
  then show "0 \<le> calculate_data_quality_score enriched"
    and "calculate_data_quality_score enriched \<le> 1"
    unfolding calculate_data_quality_score_def by (intro py_round3_bounds; simp)+
qed

lemma agent_confidence_bounds:
  assumes "0 \<le> c_confidence classification" "c_confidence classification \<le> 1"
    and "0 \<le> data_consistency qm" "data_consistency qm \<le> 1"
    and "0 \<le> field_completeness qm" "field_completeness qm \<le> 1"
  shows "0 \<le> py_round3 (agent_confidence_of classification qm)"
    and "py_round3 (agent_confidence_of classification qm) \<le> 1"
proof -
  have m: "0 \<le> min 1 (real (source_diversity qm) / 3)" "min 1 (real (source_diversity qm) / 3) \<le> 1"
    by simp_all
  have "0 \<le> agent_confidence_of classification qm" "agent_confidence_of classification qm \<le> 1"
    using assms m unfolding agent_confidence_of_def by linarith+
  then show "0 \<le> py_round3 (agent_confidence_of classification qm)"
    and "py_round3 (agent_confidence_of classification qm) \<le> 1"
    by (rule py_round3_bounds)+
qed

text \<open>
  Claim C3 at the records \<open>golden_chick\<close> and \<open>smith_john\<close>. The agent confidence lies in
  [0,1], but the quality score of the agentic result is the mean of the four quality
  metrics, one of which is the number of sources, and it exceeds 1: it is 1.131 for
  \<open>golden_chick\<close> (under either order of the conflicting values) and 1.096 for
  \<open>smith_john\<close>.
\<close>

theorem quality_score_exceeds_one:
  "quality_score_for (simulated_sources remdups) golden_chick = 1.131 \<and>
   quality_score_for (simulated_sources (\<lambda>vs. rev (remdups vs))) golden_chick = 1.131 \<and>
   quality_score_for (simulated_sources remdups) smith_john = 1.096 \<and>
   1 < quality_score_for (simulated_sources remdups) golden_chick \<and>
   agent_confidence_for (simulated_sources remdups) golden_chick = 0.81"
  by code_simp

end
